theory Spec2Isabelle
  imports Complex_Main
begin

section \<open>Values, errors and warnings\<close>

text \<open>
  The module \<^verbatim>\<open>histogram.py\<close> loads the result directory of one experiment run
  into a \<^verbatim>\<open>Session\<close> (configuration plus a pandas data frame) and draws line plots
  and histograms from it.  Python exceptions are values of the type \<open>error\<close>; a function
  that can raise returns \<open>error + 'a\<close>, with \<open>Inl\<close> for the exception.  Floating point
  numbers are idealised as reals extended by the two infinities and NaN; rounding and
  overflow are outside the model.  Strings are ASCII strings.
\<close>

datatype error =
    UserException string
  | RuntimeError string
  | AttributeError
  | KeyError string
  | TypeError
  | ValueError

text \<open>The messages handed to \<^verbatim>\<open>tools.warning\<close>, one constructor per call site.\<close>

datatype warning =
    WarnConfig
  | WarnJson
  | WarnStudy
  | WarnEval
  | WarnNoEpoch
  | WarnUnknownDataset
  | WarnNoLearningRate
  | WarnNoSecondAxis
  | WarnNoSecondLabel

text \<open>
  One cell of a data frame: a number, an infinity, a string, or the missing value
  (NaN).
\<close>

datatype cell = Num real | PosInf | NegInf | NaN | Str string

text \<open>
  A data frame: the name of its index, the index (integer step numbers), and the
  columns in order, each a name with one cell per row.
\<close>

record frame =
  index_name :: "string option"
  index :: "int list"
  columns :: "(string \<times> cell list) list"

definition column_names :: "frame \<Rightarrow> string list" where
  "column_names df = map fst (columns df)"

section \<open>Column selection\<close>

text \<open>\<^verbatim>\<open>str.lower()\<close> on ASCII strings.\<close>

definition lower_char :: "char \<Rightarrow> char" where
  "lower_char c =
     (case map_of (zip ''ABCDEFGHIJKLMNOPQRSTUVWXYZ'' ''abcdefghijklmnopqrstuvwxyz'') c of
        None \<Rightarrow> c
      | Some d \<Rightarrow> d)"

definition lower :: "string \<Rightarrow> string" where
  "lower s = map lower_char s"

text \<open>\<^verbatim>\<open>a in b\<close> on strings: \<open>a\<close> occurs in \<open>b\<close> as a contiguous substring.\<close>

fun starts_with :: "string \<Rightarrow> string \<Rightarrow> bool" where
  "starts_with [] ys = True"
| "starts_with (x # xs) [] = False"
| "starts_with (x # xs) (y # ys) = (x = y \<and> starts_with xs ys)"

fun str_in :: "string \<Rightarrow> string \<Rightarrow> bool" where
  "str_in xs [] = (xs = [])"
| "str_in xs (y # ys) = (starts_with xs (y # ys) \<or> str_in xs ys)"

text \<open>
  The two nested loops of \<^verbatim>\<open>select\<close>.  \<open>select_scan\<close> is the inner loop over the
  frame's columns for one (already lowercased) fragment; \<open>select_loop\<close> is the outer loop
  over the fragments.  \<open>acc\<close> is the list \<^verbatim>\<open>columns\<close> built so far.
\<close>

fun select_scan :: "string \<Rightarrow> string list \<Rightarrow> string list \<Rightarrow> string list" where
  "select_scan only_column [] acc = acc"
| "select_scan only_column (column # rest) acc =
     select_scan only_column rest
       (if column \<notin> set acc \<and> str_in only_column (lower column) then acc @ [column] else acc)"

fun select_loop :: "string list \<Rightarrow> string list \<Rightarrow> string list \<Rightarrow> string list" where
  "select_loop [] cols acc = acc"
| "select_loop (only_column # rest) cols acc =
     select_loop rest cols (select_scan (lower only_column) cols acc)"

text \<open>
  \<^verbatim>\<open>data[columns]\<close> with a list of names: a new frame with the named columns in the
  order of the list (every column carrying the name, should the frame repeat it);
  \<^verbatim>\<open>KeyError\<close> when a name is not a column.
\<close>

definition getitem_list :: "frame \<Rightarrow> string list \<Rightarrow> error + frame" where
  "getitem_list df names =
     (case filter (\<lambda>n. n \<notin> set (column_names df)) names of
        n # _ \<Rightarrow> Inl (KeyError n)
      | [] \<Rightarrow> Inr (df\<lparr>columns := concat (map (\<lambda>n. filter (\<lambda>c. fst c = n) (columns df)) names)\<rparr>))"

text \<open>
  \<^verbatim>\<open>select(data, *only_columns)\<close> on an (already unwrapped) data frame value: the fast
  path returns the frame, the other path the projection.
\<close>

definition select_frame :: "frame \<Rightarrow> string list \<Rightarrow> error + frame" where
  "select_frame df only_columns =
     (if length only_columns = 0 then Inr df
      else getitem_list df (select_loop only_columns (column_names df) []))"

text \<open>
  The same function with objects made explicit.  A heap is the list of the frames
  allocated so far and a reference is a position in it.  The fast path returns the
  reference it was given; \<^verbatim>\<open>data[columns]\<close> allocates a new frame.
\<close>

type_synonym heap = "frame list"
type_synonym ref = nat

definition select :: "heap \<Rightarrow> ref \<Rightarrow> string list \<Rightarrow> error + (heap \<times> ref)" where
  "select h r only_columns =
     (if length only_columns = 0 then Inr (h, r)
      else if r < length h then
        (case getitem_list (h ! r) (select_loop only_columns (column_names (h ! r)) []) of
           Inl e \<Rightarrow> Inl e
         | Inr df \<Rightarrow> Inr (h @ [df], length h))
      else Inl AttributeError)"

text \<open>
  The specification's wording of the selection, for comparison with the loops: a column
  matches when its lowercased name contains some lowercased fragment; the result lists,
  fragment by fragment, the matching columns in the frame's order, and keeps the first
  occurrence of each.
\<close>

definition matches :: "string \<Rightarrow> string \<Rightarrow> bool" where
  "matches fragment column = str_in (lower fragment) (lower column)"

primrec keep_first :: "'a list \<Rightarrow> 'a list" where
  "keep_first [] = []"
| "keep_first (x # xs) = x # filter (\<lambda>y. y \<noteq> x) (keep_first xs)"

definition select_spec :: "string list \<Rightarrow> string list \<Rightarrow> string list" where
  "select_spec fragments cols =
     keep_first (concat (map (\<lambda>f. filter (matches f) cols) fragments))"

section \<open>Sessions\<close>

text \<open>
  A value of the JSON configuration.  The configuration file holds a JSON object whose
  values are scalars (names, numbers, flags); Python's \<^verbatim>\<open>dict\<close> is an association
  list read with \<open>map_of\<close>.  \<^verbatim>\<open>json.load\<close> gives an integer literal as an \<^verbatim>\<open>int\<close>
  (\<open>JInt\<close>) and any other number as a \<^verbatim>\<open>float\<close> (\<open>JNum\<close>, read as a real).
\<close>

datatype json = JNull | JBool bool | JInt int | JNum real | JStr string

type_synonym json_object = "(string \<times> json) list"

record session =
  name :: string
  path :: string
  config :: "string option"
  json :: "json_object option"
  data :: "frame option"

text \<open>
  The keyword arguments \<^verbatim>\<open>Session.__init__\<close> hands to \<^verbatim>\<open>pandas.read_csv\<close>.
\<close>

record csv_options =
  sep :: string
  index_col :: nat
  na_values :: "string list"

text \<open>
  What \<^verbatim>\<open>Session.__init__\<close> meets outside: whether the path exists
  (\<^verbatim>\<open>Path.exists()\<close>, true of a file of any kind), whether it is a directory, its last
  component, and what reading each file below it gives.  The three readers are the
  library calls \<^verbatim>\<open>Path.read_text\<close>, \<^verbatim>\<open>json.load\<close> and \<^verbatim>\<open>pandas.read_csv\<close>, taken as
  parameters; \<open>None\<close> stands for any exception they raise.
\<close>

record directory =
  dir_exists :: bool
  is_dir :: bool
  dir_name :: string
  dir_path :: string
  read_text :: "string \<Rightarrow> string option"
  json_load :: "string \<Rightarrow> json_object option"
  read_csv :: "string \<Rightarrow> csv_options \<Rightarrow> frame option"

text \<open>\<^verbatim>\<open>str.strip()\<close>: ASCII white space removed at both ends.\<close>

definition is_space :: "char \<Rightarrow> bool" where
  "is_space c =
     (c \<in> set [CHR '' '', CHR 0x09, CHR 0x0A, CHR 0x0B, CHR 0x0C, CHR 0x0D,
                CHR 0x1C, CHR 0x1D, CHR 0x1E, CHR 0x1F])"

definition strip :: "string \<Rightarrow> string" where
  "strip s = rev (dropWhile is_space (rev (dropWhile is_space s)))"

definition study_options :: csv_options where
  "study_options = \<lparr>sep = [CHR 0x09], index_col = 0, na_values = [''     nan'']\<rparr>"

definition eval_options :: csv_options where
  "eval_options = \<lparr>sep = [CHR 0x09], index_col = 0, na_values = []\<rparr>"

subsection \<open>The outer join of two frames on their index\<close>

text \<open>
  \<^verbatim>\<open>DataFrame.join(other, how="outer")\<close> of pandas 1.x, which joins the two indexes
  with \<^verbatim>\<open>Index.join\<close>.  A row of the result is its key with the position of the row it
  takes from the left frame and from the right frame; a side that has no row of that key
  contributes \<open>None\<close>, which leaves its columns missing.  When one index is empty the
  result keeps the rows of the other in their order.  Otherwise a key pairs every row of
  the left frame that carries it with every such row of the right frame, and the keys
  come in ascending order, except that two equal indexes without repeated key keep their
  own order.  The columns of the left frame come first.  A column name that both frames
  carry raises \<^verbatim>\<open>ValueError\<close>.
\<close>

definition positions :: "int \<Rightarrow> int list \<Rightarrow> nat list" where
  "positions k ks = filter (\<lambda>i. ks ! i = k) [0..<length ks]"

definition rows_of :: "int \<Rightarrow> int list \<Rightarrow> nat option list" where
  "rows_of k ks = (if positions k ks = [] then [None] else map Some (positions k ks))"

definition join_keys :: "int list \<Rightarrow> int list \<Rightarrow> int list" where
  "join_keys l r = (if l = r \<and> distinct l then l else sort (remdups (l @ r)))"

definition join_rows :: "int list \<Rightarrow> int list \<Rightarrow> (int \<times> nat option \<times> nat option) list" where
  "join_rows l r =
     (if r = [] then map (\<lambda>i. (l ! i, Some i, None)) [0..<length l]
      else if l = [] then map (\<lambda>i. (r ! i, None, Some i)) [0..<length r]
      else concat (map (\<lambda>k. map (\<lambda>ab. (k, ab)) (List.product (rows_of k l) (rows_of k r)))
             (join_keys l r)))"

definition take_cell :: "cell list \<Rightarrow> nat option \<Rightarrow> cell" where
  "take_cell cs i =
     (case i of None \<Rightarrow> NaN | Some j \<Rightarrow> if j < length cs then cs ! j else NaN)"

definition join_outer :: "frame \<Rightarrow> frame \<Rightarrow> error + frame" where
  "join_outer l r =
     (if list_ex (\<lambda>n. n \<in> set (column_names r)) (column_names l) then Inl ValueError
      else
        Inr \<lparr>index_name = (if index_name l = index_name r then index_name l else None),
             index = map fst (join_rows (index l) (index r)),
             columns =
               map (\<lambda>c. (fst c, map (\<lambda>row. take_cell (snd c) (fst (snd row)))
                                   (join_rows (index l) (index r)))) (columns l) @
               map (\<lambda>c. (fst c, map (\<lambda>row. take_cell (snd c) (snd (snd row)))
                                   (join_rows (index l) (index r)))) (columns r)\<rparr>)"

subsection \<open>Construction\<close>

text \<open>
  The loop \<^verbatim>\<open>for df in (data_study, data_eval)\<close> that merges the frames which were
  read; \<open>acc\<close> is the variable \<^verbatim>\<open>data\<close>.
\<close>

fun merge_frames :: "frame option list \<Rightarrow> frame option \<Rightarrow> error + frame option" where
  "merge_frames [] acc = Inr acc"
| "merge_frames (None # dfs) acc = merge_frames dfs acc"
| "merge_frames (Some df # dfs) None = merge_frames dfs (Some df)"
| "merge_frames (Some df # dfs) (Some d) =
     (case join_outer d df of
        Inl e \<Rightarrow> Inl e
      | Inr j \<Rightarrow> merge_frames dfs (Some j))"

definition load_config :: "directory \<Rightarrow> warning list \<times> string option" where
  "load_config d =
     (case read_text d ''config'' of
        Some t \<Rightarrow> ([], Some (strip t))
      | None \<Rightarrow> ([WarnConfig], None))"

definition load_json :: "directory \<Rightarrow> warning list \<times> json_object option" where
  "load_json d =
     (case json_load d ''config.json'' of
        Some js \<Rightarrow> ([], Some js)
      | None \<Rightarrow> ([WarnJson], None))"

definition load_study :: "directory \<Rightarrow> warning list \<times> frame option" where
  "load_study d =
     (case read_csv d ''study'' study_options of
        Some df \<Rightarrow> ([], Some (df\<lparr>index_name := Some ''Step number''\<rparr>))
      | None \<Rightarrow> ([WarnStudy], None))"

definition load_eval :: "directory \<Rightarrow> warning list \<times> frame option" where
  "load_eval d =
     (case read_csv d ''eval'' eval_options of
        Some df \<Rightarrow> ([], Some (df\<lparr>index_name := Some ''Step number''\<rparr>))
      | None \<Rightarrow> ([WarnEval], None))"

text \<open>
  \<^verbatim>\<open>Session.__init__\<close>: the session, with the warnings logged on the way, or the
  exception raised.
\<close>

definition Session_init :: "directory \<Rightarrow> error + (warning list \<times> session)" where
  "Session_init d =
     (if \<not> dir_exists d then
        Inl (UserException ''Result directory cannot be accessed or does not exist'')
      else
        (case merge_frames [snd (load_study d), snd (load_eval d)] None of
           Inl e \<Rightarrow> Inl e
         | Inr merged \<Rightarrow>
             Inr (fst (load_config d) @ fst (load_json d) @ fst (load_study d) @ fst (load_eval d),
                  \<lparr>name = dir_name d, path = dir_path d, config = snd (load_config d),
                   json = snd (load_json d), data = merged\<rparr>)))"

subsection \<open>Derived columns\<close>

text \<open>
  \<^verbatim>\<open>data[name] = values\<close>: the column is replaced where the frame has it and appended
  otherwise.
\<close>

definition setitem :: "frame \<Rightarrow> string \<Rightarrow> cell list \<Rightarrow> frame" where
  "setitem df n cs =
     (if n \<in> set (column_names df)
      then df\<lparr>columns := map (\<lambda>c. if fst c = n then (n, cs) else c) (columns df)\<rparr>
      else df\<lparr>columns := columns df @ [(n, cs)]\<rparr>)"

text \<open>
  \<^verbatim>\<open>data[name]\<close> with one name: the column; \<^verbatim>\<open>KeyError\<close> when the frame has none of
  that name.  The table of a session never repeats a name: \<^verbatim>\<open>read_csv\<close> renames a
  repeated header and the join refuses a shared name.  A frame built elsewhere that
  repeats the name gives a sub-frame in pandas; such frames are outside this model,
  which answers \<^verbatim>\<open>ValueError\<close> for them.
\<close>

definition getitem :: "frame \<Rightarrow> string \<Rightarrow> error + cell list" where
  "getitem df n =
     (case filter (\<lambda>c. fst c = n) (columns df) of
        [] \<Rightarrow> Inl (KeyError n)
      | [c] \<Rightarrow> Inr (snd c)
      | _ \<Rightarrow> Inl ValueError)"

text \<open>A cell divided by a positive number; a string cannot be divided.\<close>

fun cell_div :: "real \<Rightarrow> cell \<Rightarrow> error + cell" where
  "cell_div n (Num x) = Inr (Num (x / n))"
| "cell_div n PosInf = Inr PosInf"
| "cell_div n NegInf = Inr NegInf"
| "cell_div n NaN = Inr NaN"
| "cell_div n (Str s) = Inl TypeError"

text \<open>A function that can raise, applied to every element in turn.\<close>

fun map_raise :: "('a \<Rightarrow> error + 'b) \<Rightarrow> 'a list \<Rightarrow> error + 'b list" where
  "map_raise f [] = Inr []"
| "map_raise f (x # xs) =
     (case f x of
        Inl e \<Rightarrow> Inl e
      | Inr y \<Rightarrow> (case map_raise f xs of Inl e \<Rightarrow> Inl e | Inr ys \<Rightarrow> Inr (y # ys)))"

definition training_sizes :: "(string \<times> nat) list" where
  "training_sizes =
     [(''mnist'', 60000), (''fashionmnist'', 60000), (''cifar10'', 50000), (''cifar100'', 50000)]"

text \<open>
  The lookup \<^verbatim>\<open>{...}.get(dataset_name, None)\<close>: only a string can equal a key of the
  table.
\<close>

definition training_size_of :: "json \<Rightarrow> nat option" where
  "training_size_of dataset_name =
     (case dataset_name of JStr n \<Rightarrow> map_of training_sizes n | _ \<Rightarrow> None)"

definition compute_epoch :: "session \<Rightarrow> error + (warning list \<times> session)" where
  "compute_epoch s =
     (case data s of
        None \<Rightarrow> Inl AttributeError
      | Some df \<Rightarrow>
          if ''Epoch number'' \<in> set (column_names df) then Inr ([], s)
          else
            (case json s of
               None \<Rightarrow> Inr ([WarnNoEpoch], s)
             | Some js \<Rightarrow>
                 (case map_of js ''dataset'' of
                    None \<Rightarrow> Inr ([WarnNoEpoch], s)
                  | Some dataset_name \<Rightarrow>
                      (case training_size_of dataset_name of
                         None \<Rightarrow> Inr ([WarnUnknownDataset], s)
                       | Some training_size \<Rightarrow>
                           (case getitem df ''Training point count'' of
                              Inl e \<Rightarrow> Inl e
                            | Inr counts \<Rightarrow>
                                (case map_raise (cell_div (real training_size)) counts of
                                   Inl e \<Rightarrow> Inl e
                                 | Inr epochs \<Rightarrow>
                                     Inr ([], s\<lparr>data :=
                                            Some (setitem df ''Epoch number'' epochs)\<rparr>)))))))"

text \<open>
  A JSON value as a Python number (\<^verbatim>\<open>bool\<close> is a subclass of \<^verbatim>\<open>int\<close>); comparing
  or dividing anything else raises \<^verbatim>\<open>TypeError\<close>.  \<open>as_int\<close> is the value where it is
  an integer of Python, and \<open>json_cell\<close> is the value as the cell of a column.
\<close>

definition as_number :: "json \<Rightarrow> real option" where
  "as_number v =
     (case v of
        JBool b \<Rightarrow> Some (if b then 1 else 0)
      | JInt n \<Rightarrow> Some (of_int n)
      | JNum x \<Rightarrow> Some x
      | _ \<Rightarrow> None)"

definition as_int :: "json \<Rightarrow> int option" where
  "as_int v =
     (case v of JBool b \<Rightarrow> Some (if b then 1 else 0) | JInt n \<Rightarrow> Some n | _ \<Rightarrow> None)"

definition json_cell :: "json \<Rightarrow> cell" where
  "json_cell v =
     (case v of
        JNull \<Rightarrow> NaN
      | JBool b \<Rightarrow> Num (if b then 1 else 0)
      | JInt n \<Rightarrow> Num (of_int n)
      | JNum x \<Rightarrow> Num x
      | JStr t \<Rightarrow> Str t)"

text \<open>
  The steps of a table are 64-bit integers, and arithmetic on them with an integer that
  fits 64 bits stays in 64 bits: a result out of range wraps around.
\<close>

definition wrap64 :: "int \<Rightarrow> int" where
  "wrap64 x = (x + 2 ^ 63) mod 2 ^ 64 - 2 ^ 63"

definition fits64 :: "int \<Rightarrow> bool" where
  "fits64 x = (- (2 ^ 63) \<le> x \<and> x < 2 ^ 63)"

text \<open>
  One entry of \<^verbatim>\<open>index // lr_delta * lr_delta\<close>.  With an integer step size that fits
  64 bits the floor division and the product are 64-bit operations; with one that does
  not fit, they are operations on Python's integers; with a float they are operations on
  floats, read as reals.  Floor division by zero gives an infinity or NaN, which the
  multiplication by zero turns into NaN (\<open>None\<close>).  A step size that is no number
  does not reach this function.
\<close>

definition floor_multiple :: "json \<Rightarrow> int \<Rightarrow> real option" where
  "floor_multiple lr_delta i =
     (case as_int lr_delta of
        Some n \<Rightarrow>
          if n = 0 then None
          else if fits64 n then Some (of_int (wrap64 (wrap64 (i div n) * n)))
          else Some (of_int (i div n * n))
      | None \<Rightarrow>
          (case lr_delta of
             JNum x \<Rightarrow> if x = 0 then None else Some (of_int \<lfloor>of_int i / x\<rfloor> * x)
           | _ \<Rightarrow> None))"

text \<open>
  One entry of \<^verbatim>\<open>lr / ((index // lr_delta * lr_delta) / lr_decay + 1)\<close>, for a positive
  \<open>lr_decay\<close>.  A division of \<open>lr\<close> by zero gives an infinity of its sign (NaN for
  zero).
\<close>

definition lr_at :: "real \<Rightarrow> real \<Rightarrow> json \<Rightarrow> int \<Rightarrow> cell" where
  "lr_at lr lr_decay lr_delta i =
     (case floor_multiple lr_delta i of
        None \<Rightarrow> NaN
      | Some m \<Rightarrow>
          if m / lr_decay + 1 = 0 then
            (if lr > 0 then PosInf else if lr < 0 then NegInf else NaN)
          else Num (lr / (m / lr_decay + 1)))"

definition json_get :: "json_object \<Rightarrow> string \<Rightarrow> json \<Rightarrow> json" where
  "json_get js k dflt = (case map_of js k of None \<Rightarrow> dflt | Some v \<Rightarrow> v)"

definition compute_lr :: "session \<Rightarrow> error + (warning list \<times> session)" where
  "compute_lr s =
     (case data s of
        None \<Rightarrow> Inl AttributeError
      | Some df \<Rightarrow>
          if ''Learning rate'' \<in> set (column_names df) then Inr ([], s)
          else
            (case json s of
               None \<Rightarrow> Inr ([WarnNoLearningRate], s)
             | Some js \<Rightarrow>
                 (case map_of js ''learning_rate'' of
                    None \<Rightarrow> Inr ([WarnNoLearningRate], s)
                  | Some lr \<Rightarrow>
                      (case as_number (json_get js ''learning_rate_decay'' (JInt 0)) of
                         None \<Rightarrow> Inl TypeError
                       | Some lr_decay \<Rightarrow>
                           if lr_decay > 0 then
                             (case as_number (json_get js ''learning_rate_decay_delta'' (JInt 1)) of
                                None \<Rightarrow> Inl TypeError
                              | Some d \<Rightarrow>
                                  (case as_number lr of
                                     None \<Rightarrow> Inl TypeError
                                   | Some base \<Rightarrow>
                                       Inr ([], s\<lparr>data := Some (setitem df ''Learning rate''
                                              (map (lr_at base lr_decay
                                                      (json_get js ''learning_rate_decay_delta''
                                                         (JInt 1)))
                                                 (index df)))\<rparr>)))
                           else
                             Inr ([], s\<lparr>data := Some (setitem df ''Learning rate''
                                    (replicate (length (index df)) (json_cell lr)))\<rparr>)))))"

text \<open>
  \<^verbatim>\<open>compute_all\<close> calls every method of the class whose name starts with
  \<^verbatim>\<open>compute_\<close>, itself excepted, in the order of the class body: \<^verbatim>\<open>compute_epoch\<close>,
  then \<^verbatim>\<open>compute_lr\<close>.  An exception of either ends it.
\<close>

definition compute_all :: "session \<Rightarrow> error + (warning list \<times> session)" where
  "compute_all s =
     (case compute_epoch s of
        Inl e \<Rightarrow> Inl e
      | Inr r1 \<Rightarrow>
          (case compute_lr (snd r1) of
             Inl e \<Rightarrow> Inl e
           | Inr r2 \<Rightarrow> Inr (fst r1 @ fst r2, snd r2)))"

section \<open>Plots\<close>

text \<open>
  The rendering library is modelled by what the module asks of it.  A figure keeps its
  size in inches and its resolution, how often it was shown, and every file written from
  it with the size and resolution it had at that moment.  An axis keeps the artists
  drawn on it, in order, and its decoration.
\<close>

record figure =
  size_inches :: "real \<times> real"
  dpi :: real
  shown :: nat
  written :: "(string \<times> (real \<times> real) \<times> real) list"

text \<open>The color \<^verbatim>\<open>"C%d" % ln\<close> of the color cycle, or a color given by name.\<close>

datatype color = Cycle int | Named string

datatype artist =
    FillBetween "cell list" "cell list" "cell list" color
  | Plot "cell list" "cell list" string string color real
  | VLine real "string option" real color "string option"
  | Hist "cell list" nat

record axes =
  artists :: "artist list"
  grid :: bool
  title :: "string option"
  xlabel :: "string option"
  ylabel :: "string option"
  xlim :: "real option \<times> real option"
  ylim :: "real option \<times> real option"
  legend :: "string list option"

datatype axis_id = Primary | Twin

text \<open>What \<^verbatim>\<open>plt.subplots()\<close> returns: a new figure and its empty axis.\<close>

definition new_axes :: axes where
  "new_axes = \<lparr>artists = [], grid = False, title = None, xlabel = None, ylabel = None,
                xlim = (None, None), ylim = (None, None), legend = None\<rparr>"

definition new_figure :: figure where
  "new_figure = \<lparr>size_inches = (6.4, 4.8), dpi = 100, shown = 0, written = []\<rparr>"

subsection \<open>Line plots\<close>

record lineplot =
  lp_fin :: bool
  lp_fig :: "figure option"
  lp_ax :: axes
  lp_tax :: "axes option"
  lp_axs :: "(string \<times> axis_id) list"
  lp_idx :: "string option"
  lp_cnt :: int

definition linestyles :: "string list" where
  "linestyles = [''-'', ''--'', '':'', ''-.'']"

definition get_line_style :: "int \<Rightarrow> string \<times> color" where
  "get_line_style k = (linestyles ! nat (k mod int (length linestyles)), Cycle k)"

definition LinePlot_init :: "string option \<Rightarrow> lineplot" where
  "LinePlot_init idx =
     \<lparr>lp_fin = False, lp_fig = Some new_figure, lp_ax = new_axes, lp_tax = None,
      lp_axs = [], lp_idx = idx, lp_cnt = 0\<rparr>"

definition get_ax :: "lineplot \<Rightarrow> string \<Rightarrow> error + (lineplot \<times> axis_id)" where
  "get_ax p n =
     (case map_of (lp_axs p) n of
        Some a \<Rightarrow> Inr (p, a)
      | None \<Rightarrow>
          if length (lp_axs p) \<ge> 2 then Inl (RuntimeError ''Line plot cannot have a 3rd y-axis'')
          else if length (lp_axs p) = 0 then Inr (p\<lparr>lp_axs := lp_axs p @ [(n, Primary)]\<rparr>, Primary)
          else Inr (p\<lparr>lp_tax := Some new_axes, lp_axs := lp_axs p @ [(n, Twin)]\<rparr>, Twin))"

text \<open>An artist added to one of the two axes of the plot.\<close>

definition draw :: "lineplot \<Rightarrow> axis_id \<Rightarrow> artist \<Rightarrow> lineplot" where
  "draw p a art =
     (case a of
        Primary \<Rightarrow> p\<lparr>lp_ax := (lp_ax p)\<lparr>artists := artists (lp_ax p) @ [art]\<rparr>\<rparr>
      | Twin \<Rightarrow>
          p\<lparr>lp_tax := map_option (\<lambda>t. t\<lparr>artists := artists t @ [art]\<rparr>) (lp_tax p)\<rparr>)"

text \<open>
  Element-wise \<^verbatim>\<open>davg - derr\<close> and \<^verbatim>\<open>davg + derr\<close> on arrays of equal length.  A
  string cannot be subtracted, and the difference is computed first.
\<close>

fun cell_sub :: "cell \<Rightarrow> cell \<Rightarrow> error + cell" where
  "cell_sub (Str s) y = Inl TypeError"
| "cell_sub x (Str s) = Inl TypeError"
| "cell_sub NaN y = Inr NaN"
| "cell_sub x NaN = Inr NaN"
| "cell_sub (Num x) (Num y) = Inr (Num (x - y))"
| "cell_sub (Num x) PosInf = Inr NegInf"
| "cell_sub (Num x) NegInf = Inr PosInf"
| "cell_sub PosInf PosInf = Inr NaN"
| "cell_sub PosInf y = Inr PosInf"
| "cell_sub NegInf NegInf = Inr NaN"
| "cell_sub NegInf y = Inr NegInf"

fun cell_add :: "cell \<Rightarrow> cell \<Rightarrow> error + cell" where
  "cell_add (Str s) y = Inl TypeError"
| "cell_add x (Str s) = Inl TypeError"
| "cell_add NaN y = Inr NaN"
| "cell_add x NaN = Inr NaN"
| "cell_add (Num x) (Num y) = Inr (Num (x + y))"
| "cell_add (Num x) PosInf = Inr PosInf"
| "cell_add (Num x) NegInf = Inr NegInf"
| "cell_add PosInf NegInf = Inr NaN"
| "cell_add PosInf y = Inr PosInf"
| "cell_add NegInf PosInf = Inr NaN"
| "cell_add NegInf y = Inr NegInf"

definition band :: "cell list \<Rightarrow> cell list \<Rightarrow> error + (cell list \<times> cell list)" where
  "band davg derr =
     (if length davg \<noteq> length derr then Inl ValueError
      else
        (case map_raise (\<lambda>ab. cell_sub (fst ab) (snd ab)) (zip davg derr) of
           Inl e \<Rightarrow> Inl e
         | Inr lo \<Rightarrow>
             (case map_raise (\<lambda>ab. cell_add (fst ab) (snd ab)) (zip davg derr) of
                Inl e \<Rightarrow> Inl e
              | Inr hi \<Rightarrow> Inr (lo, hi))))"

text \<open>
  The argument \<^verbatim>\<open>data\<close> of \<^verbatim>\<open>include\<close> and \<^verbatim>\<open>include_single\<close>: a session, a data
  frame, or an object of another type.
\<close>

datatype plot_data = OfSession session | OfFrame frame | Other

definition unwrap :: "plot_data \<Rightarrow> error + frame option" where
  "unwrap d =
     (case d of
        OfSession s \<Rightarrow> Inr (data s)
      | OfFrame df \<Rightarrow> Inr (Some df)
      | Other \<Rightarrow> Inl (RuntimeError ''Expected a Session or DataFrame for data''))"

text \<open>
  The x-axis values: the index of the frame, or the column named at construction.  A
  session without a table hands \<^verbatim>\<open>None\<close> on, which has no index and no members.
\<close>

definition x_values :: "lineplot \<Rightarrow> frame option \<Rightarrow> error + cell list" where
  "x_values p d =
     (case lp_idx p of
        None \<Rightarrow>
          (case d of
             None \<Rightarrow> Inl AttributeError
           | Some df \<Rightarrow> Inr (map (\<lambda>i. Num (of_int i)) (index df)))
      | Some ix \<Rightarrow>
          (case d of
             None \<Rightarrow> Inl TypeError
           | Some df \<Rightarrow>
               if ix \<notin> set (column_names df)
               then Inl (RuntimeError
                           ''No column named to use as index in the given session/dataframe'')
               else getitem df ix))"

text \<open>\<^verbatim>\<open>scol[:-len(errs)]\<close>: the name without its last \<open>n\<close> characters; empty for \<open>n = 0\<close>.\<close>

definition drop_suffix :: "nat \<Rightarrow> string \<Rightarrow> string" where
  "drop_suffix n s = (if n = 0 then [] else take (length s - n) s)"

text \<open>
  The inner loop of \<^verbatim>\<open>include\<close>, over the columns \<open>scols\<close> of the selection \<open>subd\<close>
  made for the selector \<open>col\<close>.  \<open>axis\<close> is the axis of this selector, once it was asked
  for.
\<close>

fun include_columns ::
  "frame \<Rightarrow> cell list \<Rightarrow> string \<Rightarrow> frame \<Rightarrow> string option \<Rightarrow> real \<Rightarrow> int option \<Rightarrow>
   string list \<Rightarrow> axis_id option \<Rightarrow> lineplot \<Rightarrow> error + lineplot" where
  "include_columns df x col subd errs lalp ccnt [] axis p = Inr p"
| "include_columns df x col subd errs lalp ccnt (scol # rest) axis p =
     (if lp_idx p = Some scol then include_columns df x col subd errs lalp ccnt rest axis p
      else if (case errs of None \<Rightarrow> False
               | Some e \<Rightarrow> drop_suffix (length e) scol \<in> set (column_names subd))
      then include_columns df x col subd errs lalp ccnt rest axis p
      else
        (case (case axis of Some a \<Rightarrow> Inr (p, a) | None \<Rightarrow> get_ax p col) of
           Inl e \<Rightarrow> Inl e
         | Inr pa \<Rightarrow>
             (case getitem subd scol of
                Inl e \<Rightarrow> Inl e
              | Inr davg \<Rightarrow>
                  (case (case errs of
                           None \<Rightarrow> Inr (fst pa)
                         | Some e \<Rightarrow>
                             if scol @ e \<in> set (column_names df) then
                               (case getitem df (scol @ e) of
                                  Inl er \<Rightarrow> Inl er
                                | Inr derr \<Rightarrow>
                                    (case band davg derr of
                                       Inl er \<Rightarrow> Inl er
                                     | Inr lh \<Rightarrow>
                                         Inr (draw (fst pa) (snd pa)
                                                (FillBetween x (fst lh) (snd lh)
                                                   (snd (get_line_style
                                                      (case ccnt of None \<Rightarrow> lp_cnt p
                                                       | Some n \<Rightarrow> n)))))))
                             else Inr (fst pa)) of
                     Inl e \<Rightarrow> Inl e
                   | Inr q \<Rightarrow>
                       include_columns df x col subd errs lalp ccnt rest (Some (snd pa))
                         ((draw q (snd pa)
                             (Plot x davg scol
                                (fst (get_line_style (case ccnt of None \<Rightarrow> lp_cnt p | Some n \<Rightarrow> n)))
                                (snd (get_line_style (case ccnt of None \<Rightarrow> lp_cnt p | Some n \<Rightarrow> n)))
                                lalp))
                          \<lparr>lp_cnt := lp_cnt p + 1\<rparr>)))))"

text \<open>The outer loop of \<^verbatim>\<open>include\<close>, over the selectors.\<close>

fun include_selectors ::
  "frame \<Rightarrow> cell list \<Rightarrow> string option \<Rightarrow> real \<Rightarrow> int option \<Rightarrow> string list \<Rightarrow>
   lineplot \<Rightarrow> error + lineplot" where
  "include_selectors df x errs lalp ccnt [] p = Inr p"
| "include_selectors df x errs lalp ccnt (col # rest) p =
     (case select_frame df [col] of
        Inl e \<Rightarrow> Inl e
      | Inr subd \<Rightarrow>
          (case include_columns df x col subd errs lalp ccnt (column_names subd) None p of
             Inl e \<Rightarrow> Inl e
           | Inr q \<Rightarrow> include_selectors df x errs lalp ccnt rest q))"

definition LinePlot_include ::
  "lineplot \<Rightarrow> plot_data \<Rightarrow> string list \<Rightarrow> string option \<Rightarrow> real \<Rightarrow> int option \<Rightarrow>
   error + lineplot" where
  "LinePlot_include p d cols errs lalp ccnt =
     (if lp_fin p
      then Inl (RuntimeError ''Plot is already finalized and cannot include another line'')
      else
        (case unwrap d of
           Inl e \<Rightarrow> Inl e
         | Inr None \<Rightarrow> map_sum id (\<lambda>x. p) (x_values p None)
         | Inr (Some df) \<Rightarrow>
             (case x_values p (Some df) of
                Inl e \<Rightarrow> Inl e
              | Inr x \<Rightarrow>
                  include_selectors df x errs lalp ccnt
                    (if length cols = 0 then column_names df else cols) p)))"

definition LinePlot_include_single ::
  "lineplot \<Rightarrow> plot_data \<Rightarrow> string \<Rightarrow> string \<Rightarrow> string option \<Rightarrow> real \<Rightarrow> int option \<Rightarrow>
   error + lineplot" where
  "LinePlot_include_single p d key col err lalp ccnt =
     (if lp_fin p
      then Inl (RuntimeError ''Plot is already finalized and cannot include another line'')
      else
        (case unwrap d of
           Inl e \<Rightarrow> Inl e
         | Inr None \<Rightarrow> map_sum id (\<lambda>x. p) (x_values p None)
         | Inr (Some df) \<Rightarrow>
             (case x_values p (Some df) of
                Inl e \<Rightarrow> Inl e
              | Inr x \<Rightarrow>
                  (case getitem df col of
                     Inl e \<Rightarrow> Inl e
                   | Inr davg \<Rightarrow>
                       (case (case err of None \<Rightarrow> Inr None
                              | Some en \<Rightarrow> map_sum id Some (getitem df en)) of
                          Inl e \<Rightarrow> Inl e
                        | Inr derr \<Rightarrow>
                            (case get_ax p col of
                               Inl e \<Rightarrow> Inl e
                             | Inr pa \<Rightarrow>
                                 (case (case derr of
                                          None \<Rightarrow> Inr (fst pa)
                                        | Some de \<Rightarrow>
                                            (case band davg de of
                                               Inl e \<Rightarrow> Inl e
                                             | Inr lh \<Rightarrow>
                                                 Inr (draw (fst pa) (snd pa)
                                                        (FillBetween x (fst lh) (snd lh)
                                                           (snd (get_line_style
                                                              (case ccnt of None \<Rightarrow> lp_cnt p
                                                               | Some n \<Rightarrow> n))))))) of
                                    Inl e \<Rightarrow> Inl e
                                  | Inr q \<Rightarrow>
                                      Inr ((draw q (snd pa)
                                              (Plot x davg key
                                                 (fst (get_line_style
                                                    (case ccnt of None \<Rightarrow> lp_cnt p | Some n \<Rightarrow> n)))
                                                 (snd (get_line_style
                                                    (case ccnt of None \<Rightarrow> lp_cnt p | Some n \<Rightarrow> n)))
                                                 lalp))
                                           \<lparr>lp_cnt := lp_cnt p + 1\<rparr>))))))))"

definition LinePlot_include_vline ::
  "lineplot \<Rightarrow> real \<Rightarrow> color \<Rightarrow> string option \<Rightarrow> string option \<Rightarrow> real \<Rightarrow> lineplot" where
  "LinePlot_include_vline p x col label ls lw =
     p\<lparr>lp_ax := (lp_ax p)\<lparr>artists := artists (lp_ax p) @ [VLine x ls lw col label]\<rparr>\<rparr>"

text \<open>
  The labels an axis contributes to the legend: those of its lines, and of its vertical
  lines that were given one.
\<close>

fun artist_labels :: "artist \<Rightarrow> string list" where
  "artist_labels (Plot x y label ls col alpha) = [label]"
| "artist_labels (VLine x ls lw col (Some label)) = [label]"
| "artist_labels other = []"

definition axis_of :: "lineplot \<Rightarrow> axis_id \<Rightarrow> axes" where
  "axis_of p a =
     (case a of Primary \<Rightarrow> lp_ax p
      | Twin \<Rightarrow> (case lp_tax p of None \<Rightarrow> lp_ax p | Some t \<Rightarrow> t))"

text \<open>
  \<^verbatim>\<open>generator_sum\<close> over the label lists of the axes in \<^verbatim>\<open>_axs\<close>: \<open>None\<close> when the
  plot has no axis yet.
\<close>

definition legend_labels :: "lineplot \<Rightarrow> string list option" where
  "legend_labels p =
     (if lp_axs p = [] then None
      else Some (concat (map (\<lambda>na. concat (map artist_labels (artists (axis_of p (snd na)))))
                   (lp_axs p))))"

text \<open>
  \<^verbatim>\<open>finalize\<close>: the legend goes on the twin axis where there is one; the second label
  falls back to the first, with a warning.  The handles of the legend are the
  \<^verbatim>\<open>generator_sum\<close> over the axes in \<^verbatim>\<open>_axs\<close>, which is \<^verbatim>\<open>None\<close> while no line was
  included; \<^verbatim>\<open>legend\<close> cannot iterate over \<^verbatim>\<open>None\<close> and raises \<^verbatim>\<open>TypeError\<close>, before
  anything is decorated and before the plot is marked as finalized.
\<close>

definition LinePlot_finalize ::
  "lineplot \<Rightarrow> string \<Rightarrow> string \<Rightarrow> string \<Rightarrow> string option \<Rightarrow>
   real option \<times> real option \<Rightarrow> real option \<times> real option \<Rightarrow> real option \<times> real option \<Rightarrow>
   string list option \<Rightarrow> error + (warning list \<times> lineplot)" where
  "LinePlot_finalize p ttl xl yl zl xr yr zr lgd =
     (if lp_fin p then Inr ([], p)
      else if lp_axs p = [] then Inl TypeError
      else
        Inr ((case zl of
                Some z \<Rightarrow> (if lp_tax p = None then [WarnNoSecondAxis] else [])
              | None \<Rightarrow> (if lp_tax p = None then [] else [WarnNoSecondLabel])),
             p\<lparr>lp_ax :=
                 (lp_ax p)\<lparr>grid := True, xlabel := Some xl, ylabel := Some yl,
                           title := Some ttl, xlim := xr, ylim := yr,
                           legend := (if lp_tax p = None
                                      then (case lgd of None \<Rightarrow> legend_labels p
                                            | Some l \<Rightarrow> Some l)
                                      else legend (lp_ax p))\<rparr>,
               lp_tax :=
                 map_option
                   (\<lambda>t. t\<lparr>ylabel := Some (case zl of None \<Rightarrow> yl | Some z \<Rightarrow> z), ylim := zr,
                           legend := (case lgd of None \<Rightarrow> legend_labels p | Some l \<Rightarrow> Some l)\<rparr>)
                   (lp_tax p),
               lp_fin := True\<rparr>))"

definition LinePlot_display :: "lineplot \<Rightarrow> error + lineplot" where
  "LinePlot_display p =
     (if \<not> lp_fin p
      then Inl (RuntimeError ''Cannot display a plot that has not been finalized yet'')
      else
        (case lp_fig p of
           None \<Rightarrow> Inl AttributeError
         | Some f \<Rightarrow> Inr (p\<lparr>lp_fig := Some (f\<lparr>shown := shown f + 1\<rparr>)\<rparr>)))"

text \<open>
  The three calls of \<^verbatim>\<open>save\<close> on the figure: \<^verbatim>\<open>set_size_inches\<close>, \<^verbatim>\<open>set_dpi\<close> and
  \<^verbatim>\<open>savefig\<close>, which records the file with the size and resolution of the figure.
\<close>

definition save_figure :: "figure \<Rightarrow> string \<Rightarrow> real \<Rightarrow> real \<Rightarrow> real \<Rightarrow> figure" where
  "save_figure f file d xsize ysize =
     f\<lparr>size_inches := (xsize * 2.54, ysize * 2.54), dpi := d,
       written := written f @ [(file, (xsize * 2.54, ysize * 2.54), d)]\<rparr>"

definition LinePlot_save ::
  "lineplot \<Rightarrow> string \<Rightarrow> real \<Rightarrow> real \<Rightarrow> real \<Rightarrow> error + lineplot" where
  "LinePlot_save p file d xsize ysize =
     (if \<not> lp_fin p
      then Inl (RuntimeError ''Cannot display a plot that has not been finalized yet'')
      else
        (case lp_fig p of
           None \<Rightarrow> Inl AttributeError
         | Some f \<Rightarrow> Inr (p\<lparr>lp_fig := Some (save_figure f file d xsize ysize)\<rparr>)))"

definition LinePlot_close :: "lineplot \<Rightarrow> lineplot" where
  "LinePlot_close p = (case lp_fig p of None \<Rightarrow> p | Some f \<Rightarrow> p\<lparr>lp_fig := None\<rparr>)"

subsection \<open>Histograms\<close>

record histplot =
  hp_bins :: nat
  hp_fin :: bool
  hp_fig :: "figure option"
  hp_ax :: axes

definition HistPlot_init :: "nat \<Rightarrow> histplot" where
  "HistPlot_init bins = \<lparr>hp_bins = bins, hp_fin = False, hp_fig = Some new_figure, hp_ax = new_axes\<rparr>"

text \<open>
  \<^verbatim>\<open>HistPlot.include\<close>: the samples (a series is turned into an array first) go
  to \<^verbatim>\<open>hist\<close> on the axis, which raises \<^verbatim>\<open>ValueError\<close> for no bin and for samples
  without a finite range.  The method reads no other attribute of the plot.
\<close>

fun finite_cell :: "cell \<Rightarrow> bool" where
  "finite_cell PosInf = False"
| "finite_cell NegInf = False"
| "finite_cell NaN = False"
| "finite_cell c = True"

definition HistPlot_include :: "histplot \<Rightarrow> cell list \<Rightarrow> error + histplot" where
  "HistPlot_include p samples =
     (if 0 < hp_bins p \<and> list_all finite_cell samples
      then Inr (p\<lparr>hp_ax := (hp_ax p)\<lparr>artists := artists (hp_ax p) @ [Hist samples (hp_bins p)]\<rparr>\<rparr>)
      else Inl ValueError)"

definition HistPlot_finalize ::
  "histplot \<Rightarrow> string \<Rightarrow> string \<Rightarrow> string \<Rightarrow> real option \<times> real option \<Rightarrow>
   real option \<times> real option \<Rightarrow> histplot" where
  "HistPlot_finalize p ttl xl yl xr yr =
     (if hp_fin p then p
      else p\<lparr>hp_ax := (hp_ax p)\<lparr>grid := True, xlabel := Some xl, ylabel := Some yl,
                               title := Some ttl, xlim := xr, ylim := yr\<rparr>,
             hp_fin := True\<rparr>)"

definition HistPlot_display :: "histplot \<Rightarrow> error + histplot" where
  "HistPlot_display p =
     (if \<not> hp_fin p
      then Inl (RuntimeError ''Cannot display a plot that has not been finalized yet'')
      else
        (case hp_fig p of
           None \<Rightarrow> Inl AttributeError
         | Some f \<Rightarrow> Inr (p\<lparr>hp_fig := Some (f\<lparr>shown := shown f + 1\<rparr>)\<rparr>)))"

definition HistPlot_save ::
  "histplot \<Rightarrow> string \<Rightarrow> real \<Rightarrow> real \<Rightarrow> real \<Rightarrow> error + histplot" where
  "HistPlot_save p file d xsize ysize =
     (if \<not> hp_fin p
      then Inl (RuntimeError ''Cannot display a plot that has not been finalized yet'')
      else
        (case hp_fig p of
           None \<Rightarrow> Inl AttributeError
         | Some f \<Rightarrow> Inr (p\<lparr>hp_fig := Some (save_figure f file d xsize ysize)\<rparr>)))"

definition HistPlot_close :: "histplot \<Rightarrow> histplot" where
  "HistPlot_close p = (case hp_fig p of None \<Rightarrow> p | Some f \<Rightarrow> p\<lparr>hp_fig := None\<rparr>)"

text \<open>
  The size in inches of a length given in centimetres (one inch is 2.54 cm), as the
  documentation of \<^verbatim>\<open>save\<close> words its arguments.
\<close>

definition cm_to_inches :: "real \<Rightarrow> real" where
  "cm_to_inches x = x / 2.54"

section \<open>Column selection: proofs\<close>

lemma starts_with_iff: "starts_with xs ys \<longleftrightarrow> (\<exists>ss. ys = xs @ ss)"
  by (induction xs ys rule: starts_with.induct) auto

lemma str_in_iff: "str_in xs ys \<longleftrightarrow> (\<exists>ps ss. ys = ps @ xs @ ss)"
proof (induction ys)
  case Nil
  then show ?case by simp
next
  case (Cons y ys)
  show ?case
  proof
    assume "str_in xs (y # ys)"
    then consider "starts_with xs (y # ys)" | "str_in xs ys" by auto
    then show "\<exists>ps ss. y # ys = ps @ xs @ ss"
    proof cases
      case 1
      then obtain ss where "y # ys = xs @ ss" by (auto simp: starts_with_iff)
      then have "y # ys = [] @ xs @ ss" by simp
      then show ?thesis by blast
    next
      case 2
      then obtain ps ss where "ys = ps @ xs @ ss" using Cons.IH by blast
      then have "y # ys = (y # ps) @ xs @ ss" by simp
      then show ?thesis by blast
    qed
  next
    assume "\<exists>ps ss. y # ys = ps @ xs @ ss"
    then obtain ps ss where eq: "y # ys = ps @ xs @ ss" by blast
    show "str_in xs (y # ys)"
    proof (cases ps)
      case Nil
      with eq have "starts_with xs (y # ys)" by (auto simp: starts_with_iff)
      then show ?thesis by simp
    next
      case (Cons p ps')
      with eq have "ys = ps' @ xs @ ss" by simp
      then have "str_in xs ys" using Cons.IH by blast
      then show ?thesis by simp
    qed
  qed
qed

lemma matches_iff: "matches f c \<longleftrightarrow> (\<exists>ps ss. lower c = ps @ lower f @ ss)"
  by (simp add: matches_def str_in_iff)

lemma set_keep_first: "set (keep_first xs) = set xs"
  by (induction xs) auto

lemma distinct_keep_first: "distinct (keep_first xs)"
  by (induction xs) (auto simp: set_keep_first)

lemma keep_first_append:
  "keep_first (xs @ ys) = keep_first xs @ filter (\<lambda>y. y \<notin> set xs) (keep_first ys)"
  by (induction xs) (auto intro: filter_cong)

text \<open>
  The inner loop appends to \<open>acc\<close> the matching columns it does not hold yet, each
  once, in the order of the frame.
\<close>

lemma select_scan_eq:
  "select_scan f cols acc =
     acc @ filter (\<lambda>c. c \<notin> set acc) (keep_first (filter (\<lambda>c. str_in f (lower c)) cols))"
proof (induction cols arbitrary: acc)
  case Nil
  then show ?case by simp
next
  case (Cons c rest)
  show ?case
    by (auto simp: Cons.IH intro: filter_cong)
qed

lemma select_loop_eq:
  "select_loop fs cols acc =
     acc @ filter (\<lambda>c. c \<notin> set acc)
             (keep_first (concat (map (\<lambda>f. filter (matches f) cols) fs)))"
proof (induction fs arbitrary: acc)
  case Nil
  then show ?case by simp
next
  case (Cons f fs)
  let ?A = "filter (matches f) cols"
  let ?B = "concat (map (\<lambda>f. filter (matches f) cols) fs)"
  let ?acc' = "select_scan (lower f) cols acc"
  have "matches f = (\<lambda>c. str_in (lower f) (lower c))"
    by (simp add: fun_eq_iff matches_def)
  then have acc': "?acc' = acc @ filter (\<lambda>c. c \<notin> set acc) (keep_first ?A)"
    by (simp add: select_scan_eq)
  have mem: "\<And>y. y \<notin> set ?acc' \<longleftrightarrow> y \<notin> set acc \<and> y \<notin> set ?A"
    unfolding acc' by (auto simp: set_keep_first)
  have "select_loop (f # fs) cols acc = ?acc' @ filter (\<lambda>c. c \<notin> set ?acc') (keep_first ?B)"
    by (simp add: Cons.IH)
  also have "\<dots> = ?acc' @ filter (\<lambda>c. c \<notin> set acc \<and> c \<notin> set ?A) (keep_first ?B)"
    using mem by presburger
  also have "\<dots> = acc @ filter (\<lambda>c. c \<notin> set acc) (keep_first (?A @ ?B))"
    unfolding acc' by (simp add: keep_first_append conj_commute)
  finally show ?case by simp
qed

lemma select_loop_spec: "select_loop fs cols [] = select_spec fs cols"
  by (simp add: select_loop_eq select_spec_def)

lemma set_select_spec:
  "set (select_spec fs cols) = {c \<in> set cols. \<exists>f \<in> set fs. matches f c}"
  by (auto simp: select_spec_def set_keep_first)

lemma filter_name_single:
  "distinct (map fst cs) \<Longrightarrow> n \<in> fst ` set cs \<Longrightarrow> map fst (filter (\<lambda>c. fst c = n) cs) = [n]"
proof (induction cs)
  case Nil
  then show ?case by simp
next
  case (Cons c cs)
  show ?case
  proof (cases "fst c = n")
    case True
    then have "n \<notin> fst ` set cs" using Cons.prems(1) by auto
    then have "filter (\<lambda>c. fst c = n) cs = []" by (auto simp: filter_empty_conv)
    with True show ?thesis by simp
  next
    case False
    then have "n \<in> fst ` set cs" using Cons.prems(2) by auto
    then show ?thesis using False Cons.IH Cons.prems(1) by simp
  qed
qed

lemma project_names:
  "distinct (map fst cs) \<Longrightarrow> set ns \<subseteq> fst ` set cs \<Longrightarrow>
     map fst (concat (map (\<lambda>n. filter (\<lambda>c. fst c = n) cs) ns)) = ns"
  by (induction ns) (simp_all add: filter_name_single)

lemma set_project_names:
  "set ns \<subseteq> fst ` set cs \<Longrightarrow>
     set (map fst (concat (map (\<lambda>n. filter (\<lambda>c. fst c = n) cs) ns))) = set ns"
  by (induction ns) auto

lemma getitem_list_ok:
  "set ns \<subseteq> set (column_names df) \<Longrightarrow>
     getitem_list df ns =
       Inr (df\<lparr>columns := concat (map (\<lambda>n. filter (\<lambda>c. fst c = n) (columns df)) ns)\<rparr>)"
proof -
  assume "set ns \<subseteq> set (column_names df)"
  then have "filter (\<lambda>n. n \<notin> set (column_names df)) ns = []"
    by (auto simp: filter_empty_conv)
  then show ?thesis by (simp add: getitem_list_def)
qed

text \<open>
  Claim C2.  Without fragments \<open>select\<close> returns the reference it was given and leaves
  the heap as it was: the same object, not a copy.  With fragments it allocates the
  projection of the frame.  The names selected are those \<open>select_spec\<close> lists: exactly
  the columns whose lowercased name contains a lowercased fragment as a substring, each
  once, in the order in which the fragments first reach them; the projection keeps the
  index and holds, name by name in that order, the columns of the frame with that name
  (one each in a frame whose column names are distinct, so that the names of the
  projection are the selected names).
\<close>

theorem select_projection:
  "select h r [] = Inr (h, r) \<and>
   (fragments \<noteq> [] \<and> r < length h \<longrightarrow>
      (\<exists>df. select h r fragments = Inr (h @ [df], length h) \<and>
         index df = index (h ! r) \<and>
         columns df =
           concat (map (\<lambda>n. filter (\<lambda>c. fst c = n) (columns (h ! r)))
             (select_spec fragments (column_names (h ! r)))) \<and>
         distinct (select_spec fragments (column_names (h ! r))) \<and>
         set (select_spec fragments (column_names (h ! r))) =
           {c \<in> set (column_names (h ! r)).
              \<exists>f \<in> set fragments. \<exists>ps ss. lower c = ps @ lower f @ ss} \<and>
         set (column_names df) = set (select_spec fragments (column_names (h ! r))) \<and>
         (distinct (column_names (h ! r)) \<longrightarrow>
            column_names df = select_spec fragments (column_names (h ! r)))))"
proof (intro conjI impI)
  show "select h r [] = Inr (h, r)"
    by (simp add: select_def)
next
  assume a: "fragments \<noteq> [] \<and> r < length h"
  let ?T = "h ! r"
  let ?ns = "select_spec fragments (column_names ?T)"
  let ?df = "?T\<lparr>columns := concat (map (\<lambda>n. filter (\<lambda>c. fst c = n) (columns ?T)) ?ns)\<rparr>"
  have sub: "set ?ns \<subseteq> set (column_names ?T)"
    by (auto simp: set_select_spec)
  have "getitem_list ?T ?ns = Inr ?df"
    by (rule getitem_list_ok [OF sub])
  then have sel: "select h r fragments = Inr (h @ [?df], length h)"
    using a by (simp add: select_def select_loop_spec)
  have names: "distinct (column_names ?T) \<longrightarrow> column_names ?df = ?ns"
    using sub project_names [of "columns ?T" ?ns] by (simp add: column_names_def)
  have setn: "set (column_names ?df) = set ?ns"
    using sub set_project_names [of ?ns "columns ?T"] by (simp add: column_names_def)
  have dist: "distinct ?ns"
    by (simp add: select_spec_def distinct_keep_first)
  have chr: "set ?ns = {c \<in> set (column_names ?T).
      \<exists>f \<in> set fragments. \<exists>ps ss. lower c = ps @ lower f @ ss}"
    by (simp add: set_select_spec matches_iff)
  have ix: "index ?df = index ?T"
    by simp
  have cs: "columns ?df = concat (map (\<lambda>n. filter (\<lambda>c. fst c = n) (columns ?T)) ?ns)"
    by simp
  show "\<exists>df. select h r fragments = Inr (h @ [df], length h) \<and>
         index df = index (h ! r) \<and>
         columns df =
           concat (map (\<lambda>n. filter (\<lambda>c. fst c = n) (columns (h ! r)))
             (select_spec fragments (column_names (h ! r)))) \<and>
         distinct (select_spec fragments (column_names (h ! r))) \<and>
         set (select_spec fragments (column_names (h ! r))) =
           {c \<in> set (column_names (h ! r)).
              \<exists>f \<in> set fragments. \<exists>ps ss. lower c = ps @ lower f @ ss} \<and>
         set (column_names df) = set (select_spec fragments (column_names (h ! r))) \<and>
         (distinct (column_names (h ! r)) \<longrightarrow>
            column_names df = select_spec fragments (column_names (h ! r)))"
    by (rule exI [of _ ?df]) (intro conjI sel ix cs dist chr setn names)
qed

text \<open>
  The theorem at a frame with the columns Loss, Accuracy and Loss-err and the fragments
  LOSS and err: both fragments match Loss-err, which is selected once.
\<close>

theorem select_projection_witness:
  "select [\<lparr>index_name = Some ''Step number'', index = [0, 1],
            columns = [(''Loss'', [Num 2, Num 1]), (''Accuracy'', [Num 0, Num 1]),
                       (''Loss-err'', [NaN, Num 0])]\<rparr>] 0 [] =
     Inr ([\<lparr>index_name = Some ''Step number'', index = [0, 1],
            columns = [(''Loss'', [Num 2, Num 1]), (''Accuracy'', [Num 0, Num 1]),
                       (''Loss-err'', [NaN, Num 0])]\<rparr>], 0) \<and>
   (\<exists>df. select [\<lparr>index_name = Some ''Step number'', index = [0, 1],
            columns = [(''Loss'', [Num 2, Num 1]), (''Accuracy'', [Num 0, Num 1]),
                       (''Loss-err'', [NaN, Num 0])]\<rparr>] 0 [''LOSS'', ''err''] =
      Inr ([\<lparr>index_name = Some ''Step number'', index = [0, 1],
            columns = [(''Loss'', [Num 2, Num 1]), (''Accuracy'', [Num 0, Num 1]),
                       (''Loss-err'', [NaN, Num 0])]\<rparr>, df], 1) \<and>
      column_names df = [''Loss'', ''Loss-err''])"
proof -
  define T where "T = \<lparr>index_name = Some ''Step number'', index = [0, 1],
            columns = [(''Loss'', [Num 2, Num 1]), (''Accuracy'', [Num 0, Num 1]),
                       (''Loss-err'', [NaN, Num 0])]\<rparr>"
  have names: "column_names T = [''Loss'', ''Accuracy'', ''Loss-err'']"
    by (simp add: T_def column_names_def)
  have spec: "select_spec [''LOSS'', ''err''] [''Loss'', ''Accuracy'', ''Loss-err'']
      = [''Loss'', ''Loss-err'']"
    by (simp add: select_spec_def matches_def lower_def lower_char_def)
  have hyp: "[''LOSS'', ''err''] \<noteq> [] \<and> (0::nat) < length [T]"
    by simp
  have dist: "distinct (column_names ([T] ! 0))"
    by (simp add: names)
  from select_projection [of "[T]" 0 "[''LOSS'', ''err'']"] hyp
  obtain df where
    1: "select [T] 0 [''LOSS'', ''err''] = Inr ([T] @ [df], length [T])" and
    2: "distinct (column_names ([T] ! 0)) \<longrightarrow>
       column_names df = select_spec [''LOSS'', ''err''] (column_names ([T] ! 0))"
    by blast
  from 2 dist have "column_names df = select_spec [''LOSS'', ''err''] (column_names ([T] ! 0))"
    by (rule mp)
  then have 3: "column_names df = [''Loss'', ''Loss-err'']"
    by (simp add: names spec)
  from 1 have 4: "select [T] 0 [''LOSS'', ''err''] = Inr ([T, df], 1)"
    by simp
  from 3 4 have "\<exists>df. select [T] 0 [''LOSS'', ''err''] = Inr ([T, df], 1) \<and>
      column_names df = [''Loss'', ''Loss-err'']"
    by blast
  moreover have "select [T] 0 [] = Inr ([T], 0)"
    using select_projection [of "[T]" 0 "[]"] by (rule conjunct1)
  ultimately show ?thesis
    unfolding T_def by (rule conjI [rotated])
qed

section \<open>Plots: proofs\<close>

text \<open>
  Claim C1.  \<^verbatim>\<open>save\<close> documents \<open>xsize\<close> and \<open>ysize\<close> as centimetres and hands them to
  \<^verbatim>\<open>set_size_inches\<close>.  A length in centimetres is its value divided by 2.54 in inches;
  the method multiplies by 2.54 instead.  A line plot with one line included, finalized
  and saved with the default size of 3 cm by 2 cm has its figure set to 7.62 by 5.08
  inches, and the file is written at that size, where the documented size is 300/254 by
  200/254 inches; and so has a finalized histogram.
\<close>

theorem save_multiplies_by_inch:
  "map_sum id (\<lambda>p. map_option (\<lambda>f. (size_inches f, map (\<lambda>w. (fst w, fst (snd w))) (written f)))
                    (lp_fig p))
     (case LinePlot_include_single (LinePlot_init None)
             (OfFrame \<lparr>index_name = Some ''Step number'', index = [0, 1],
                       columns = [(''Loss'', [Num 2, Num 1])]\<rparr>)
             ''loss'' ''Loss'' None 1 None of
        Inl e \<Rightarrow> Inl e
      | Inr p \<Rightarrow>
          (case LinePlot_finalize p ''t'' ''x'' ''y'' None (None, None) (None, None)
                  (None, None) None of
             Inl e \<Rightarrow> Inl e
           | Inr wq \<Rightarrow> LinePlot_save (snd wq) ''plot.png'' 200 3 2))
     = Inr (Some ((7.62, 5.08), [(''plot.png'', (7.62, 5.08))])) \<and>
   map_sum id (\<lambda>p. map_option (\<lambda>f. (size_inches f, map (\<lambda>w. (fst w, fst (snd w))) (written f)))
                    (hp_fig p))
     (HistPlot_save
        (HistPlot_finalize (HistPlot_init 25) ''t'' ''x'' ''y'' (None, None) (None, None))
        ''hist.png'' 200 3 2)
     = Inr (Some ((7.62, 5.08), [(''hist.png'', (7.62, 5.08))])) \<and>
   (cm_to_inches 3, cm_to_inches 2) = (300 / 254, 200 / 254) \<and>
   (cm_to_inches 3, cm_to_inches 2) \<noteq> (7.62, 5.08)"
  by (simp add: LinePlot_include_single_def unwrap_def x_values_def getitem_def get_ax_def
      draw_def LinePlot_save_def LinePlot_finalize_def LinePlot_init_def HistPlot_save_def
      HistPlot_finalize_def HistPlot_init_def save_figure_def new_figure_def cm_to_inches_def)

text \<open>
  Claim C6, as the specification words it, fails: \<^verbatim>\<open>close\<close> releases the figure and
  leaves the finalized flag as it is, and \<^verbatim>\<open>include\<close> and \<^verbatim>\<open>include_single\<close> read
  only that flag.  On a plot closed before it was finalized both return normally: with
  an empty frame \<^verbatim>\<open>include\<close> returns the plot unchanged, and with a frame holding the
  column Loss both draw its line on the axis.
\<close>

theorem include_after_close_counterexample:
  "lp_fig (LinePlot_close (LinePlot_init None)) = None \<and>
   LinePlot_include (LinePlot_close (LinePlot_init None))
      (OfFrame \<lparr>index_name = None, index = [], columns = []\<rparr>) [] None 1 None
     = Inr (LinePlot_close (LinePlot_init None)) \<and>
   map_sum id (\<lambda>p. artists (lp_ax p))
     (LinePlot_include (LinePlot_close (LinePlot_init None))
        (OfFrame \<lparr>index_name = Some ''Step number'', index = [0, 1],
                  columns = [(''Loss'', [Num 2, Num 1])]\<rparr>) [] None 1 None)
     = Inr [Plot [Num 0, Num 1] [Num 2, Num 1] ''Loss'' ''-'' (Cycle 0) 1] \<and>
   map_sum id (\<lambda>p. artists (lp_ax p))
     (LinePlot_include_single (LinePlot_close (LinePlot_init None))
        (OfFrame \<lparr>index_name = Some ''Step number'', index = [0, 1],
                  columns = [(''Loss'', [Num 2, Num 1])]\<rparr>) ''loss'' ''Loss'' None 1 None)
     = Inr [Plot [Num 0, Num 1] [Num 2, Num 1] ''loss'' ''-'' (Cycle 0) 1]"
  by (simp add: LinePlot_include_def LinePlot_include_single_def LinePlot_close_def
      LinePlot_init_def unwrap_def x_values_def column_names_def select_frame_def
      getitem_list_def getitem_def get_ax_def draw_def get_line_style_def linestyles_def
      new_axes_def new_figure_def lower_def lower_char_def)

text \<open>
  Claim C6, amended.  On every line plot whose finalized flag is set, \<^verbatim>\<open>include\<close> and
  \<^verbatim>\<open>include_single\<close> raise \<^verbatim>\<open>RuntimeError\<close> whatever their arguments, before anything
  is read or drawn.  The flag is set on every plot that \<^verbatim>\<open>finalize\<close> returns, and
  \<^verbatim>\<open>finalize\<close> returns on every plot on which a line was included; \<^verbatim>\<open>close\<close> keeps the
  flag.  So this covers a finalized plot and a plot closed after it was finalized.  On a
  plot without any line \<^verbatim>\<open>finalize\<close> raises \<^verbatim>\<open>TypeError\<close>, and having set no flag it
  does not stand in the way of a later inclusion.
\<close>

theorem include_after_finalize_raises:
  "(lp_fin p \<longrightarrow>
      LinePlot_include p d cols errs lalp ccnt =
        Inl (RuntimeError ''Plot is already finalized and cannot include another line'') \<and>
      LinePlot_include_single p d key col err lalp ccnt =
        Inl (RuntimeError ''Plot is already finalized and cannot include another line'')) \<and>
   (LinePlot_finalize p ttl xl yl zl xr yr zr lgd = Inr (ws, q) \<longrightarrow> lp_fin q) \<and>
   (lp_axs p \<noteq> [] \<longrightarrow>
      (\<exists>ws' q'. LinePlot_finalize p ttl xl yl zl xr yr zr lgd = Inr (ws', q') \<and> lp_fin q')) \<and>
   (\<not> lp_fin p \<and> lp_axs p = [] \<longrightarrow>
      LinePlot_finalize p ttl xl yl zl xr yr zr lgd = Inl TypeError) \<and>
   lp_fin (LinePlot_close p) = lp_fin p"
  by (auto simp add: LinePlot_include_def LinePlot_include_single_def LinePlot_finalize_def
      LinePlot_close_def split: option.split if_splits)

theorem include_after_finalize_raises_witness:
  "(\<exists>p ws q.
      LinePlot_include_single (LinePlot_init None)
        (OfFrame \<lparr>index_name = None, index = [0], columns = [(''Loss'', [Num 1])]\<rparr>)
        ''loss'' ''Loss'' None 1 None = Inr p \<and>
      LinePlot_finalize p ''t'' ''x'' ''y'' None (None, None) (None, None) (None, None) None
        = Inr (ws, q) \<and>
      lp_fin q \<and>
      LinePlot_include q
        (OfFrame \<lparr>index_name = None, index = [0], columns = [(''Loss'', [Num 1])]\<rparr>)
        [''loss''] None 1 None =
        Inl (RuntimeError ''Plot is already finalized and cannot include another line'') \<and>
      LinePlot_include_single (LinePlot_close q)
        (OfFrame \<lparr>index_name = None, index = [0], columns = [(''Loss'', [Num 1])]\<rparr>)
        ''loss'' ''Loss'' None 1 None =
        Inl (RuntimeError ''Plot is already finalized and cannot include another line'')) \<and>
   LinePlot_finalize (LinePlot_init None) ''t'' ''x'' ''y'' None (None, None) (None, None)
     (None, None) None = Inl TypeError"
proof -
  define F where "F = OfFrame \<lparr>index_name = None, index = [0], columns = [(''Loss'', [Num 1])]\<rparr>"
  have "\<exists>p. LinePlot_include_single (LinePlot_init None) F ''loss'' ''Loss'' None 1 None = Inr p \<and>
      lp_axs p \<noteq> []"
    by (simp add: F_def LinePlot_include_single_def LinePlot_init_def unwrap_def x_values_def
        getitem_def get_ax_def draw_def)
  then obtain p where inc: "LinePlot_include_single (LinePlot_init None) F ''loss'' ''Loss''
      None 1 None = Inr p" and axs: "lp_axs p \<noteq> []"
    by blast
  from axs include_after_finalize_raises [where p = p and ttl = "''t''" and xl = "''x''"
      and yl = "''y''" and zl = None and xr = "(None, None)" and yr = "(None, None)"
      and zr = "(None, None)" and lgd = None, THEN conjunct2, THEN conjunct2, THEN conjunct1]
  obtain ws q where fin: "LinePlot_finalize p ''t'' ''x'' ''y'' None (None, None) (None, None)
      (None, None) None = Inr (ws, q)" and flag: "lp_fin q"
    by blast
  have 1: "LinePlot_include q F [''loss''] None 1 None =
      Inl (RuntimeError ''Plot is already finalized and cannot include another line'')"
    using flag include_after_finalize_raises [where p = q and d = F and cols = "[''loss'']"
        and errs = None and lalp = 1 and ccnt = None, THEN conjunct1]
    by simp
  have "lp_fin (LinePlot_close q)"
    using flag include_after_finalize_raises [where p = q, THEN conjunct2, THEN conjunct2,
        THEN conjunct2, THEN conjunct2]
    by simp
  then have 2: "LinePlot_include_single (LinePlot_close q) F ''loss'' ''Loss'' None 1 None =
      Inl (RuntimeError ''Plot is already finalized and cannot include another line'')"
    using include_after_finalize_raises [where p = "LinePlot_close q" and d = F
        and key = "''loss''" and col = "''Loss''" and err = None and lalp = 1 and ccnt = None,
        THEN conjunct1]
    by simp
  have "\<not> lp_fin (LinePlot_init None) \<and> lp_axs (LinePlot_init None) = []"
    by (simp add: LinePlot_init_def)
  then have 3: "LinePlot_finalize (LinePlot_init None) ''t'' ''x'' ''y'' None (None, None)
      (None, None) (None, None) None = Inl TypeError"
    by (rule include_after_finalize_raises [where p = "LinePlot_init None", THEN conjunct2,
        THEN conjunct2, THEN conjunct2, THEN conjunct1, THEN mp])
  have "\<exists>p ws q.
      LinePlot_include_single (LinePlot_init None) F ''loss'' ''Loss'' None 1 None = Inr p \<and>
      LinePlot_finalize p ''t'' ''x'' ''y'' None (None, None) (None, None) (None, None) None
        = Inr (ws, q) \<and>
      lp_fin q \<and>
      LinePlot_include q F [''loss''] None 1 None =
        Inl (RuntimeError ''Plot is already finalized and cannot include another line'') \<and>
      LinePlot_include_single (LinePlot_close q) F ''loss'' ''Loss'' None 1 None =
        Inl (RuntimeError ''Plot is already finalized and cannot include another line'')"
    by (rule exI [of _ p], rule exI [of _ ws], rule exI [of _ q]) (intro conjI inc fin flag 1 2)
  with 3 show ?thesis
    unfolding F_def by (intro conjI)
qed

text \<open>
  Claim C7.  \<^verbatim>\<open>HistPlot.finalize\<close> is documented to prevent further inclusion, and
  \<^verbatim>\<open>LinePlot.include\<close> checks the finalized flag first; \<^verbatim>\<open>HistPlot.include\<close> has no
  such check.  On a finalized histogram it draws the samples and returns the plot.
\<close>

theorem hist_include_after_finalize:
  "map_sum id (\<lambda>p. (hp_fin p, artists (hp_ax p)))
     (HistPlot_include
        (HistPlot_finalize (HistPlot_init 25) ''t'' ''x'' ''y'' (None, None) (None, None))
        [Num 1, Num 2])
     = Inr (True, [Hist [Num 1, Num 2] 25])"
  by (simp add: HistPlot_include_def HistPlot_finalize_def HistPlot_init_def new_axes_def)

section \<open>Sessions: proofs\<close>

lemma init_no_tables:
  "dir_exists d \<Longrightarrow> read_csv d ''study'' study_options = None \<Longrightarrow>
   read_csv d ''eval'' eval_options = None \<Longrightarrow>
   \<exists>w s. Session_init d = Inr (w, s) \<and> data s = None"
  by (simp add: Session_init_def load_study_def load_eval_def)

text \<open>
  Claim C8.  The constructor is to ensure that the result directory exists, and raises
  \<^verbatim>\<open>UserException\<close> where \<^verbatim>\<open>Path.exists()\<close> is false.  That test is also true of a
  path that names a regular file.  For such a path nothing is raised: every read below
  it fails and is logged, and a session without configuration and without table is
  returned.
\<close>

theorem session_of_a_regular_file:
  "map_sum id (\<lambda>r. (fst r, config (snd r), json (snd r), data (snd r)))
     (Session_init \<lparr>dir_exists = True, is_dir = False, dir_name = ''notes.txt'',
                     dir_path = ''results/notes.txt'', read_text = (\<lambda>f. None),
                     json_load = (\<lambda>f. None), read_csv = (\<lambda>f opts. None)\<rparr>)
     = Inr ([WarnConfig, WarnJson, WarnStudy, WarnEval], None, None, None)"
  by (simp add: Session_init_def load_config_def load_json_def load_study_def load_eval_def)

text \<open>
  Claim C10.  On a session whose table is absent, \<^verbatim>\<open>compute_epoch\<close> and
  \<^verbatim>\<open>compute_lr\<close> raise \<^verbatim>\<open>AttributeError\<close> at their first statement, which reads the
  columns of the table, and so does \<^verbatim>\<open>compute_all\<close>, which calls them.  Such a session
  is what the constructor returns when neither log can be read.  With a table and
  without a JSON configuration the three methods warn and return the session as it
  was.
\<close>

theorem compute_without_table_raises:
  "(data s = None \<longrightarrow>
      compute_epoch s = Inl AttributeError \<and> compute_lr s = Inl AttributeError \<and>
      compute_all s = Inl AttributeError) \<and>
   (dir_exists d \<and> read_csv d ''study'' study_options = None \<and>
    read_csv d ''eval'' eval_options = None \<longrightarrow>
      (\<exists>w s'. Session_init d = Inr (w, s') \<and> data s' = None \<and>
         compute_all s' = Inl AttributeError)) \<and>
   (data s = Some df \<and> json s = None \<and> ''Epoch number'' \<notin> set (column_names df) \<and>
    ''Learning rate'' \<notin> set (column_names df) \<longrightarrow>
      compute_epoch s = Inr ([WarnNoEpoch], s) \<and>
      compute_lr s = Inr ([WarnNoLearningRate], s) \<and>
      compute_all s = Inr ([WarnNoEpoch, WarnNoLearningRate], s))"
proof (intro conjI impI)
  assume "data s = None"
  then show "compute_epoch s = Inl AttributeError" "compute_lr s = Inl AttributeError"
    "compute_all s = Inl AttributeError"
    by (simp_all add: compute_epoch_def compute_lr_def compute_all_def)
next
  assume a: "dir_exists d \<and> read_csv d ''study'' study_options = None \<and>
    read_csv d ''eval'' eval_options = None"
  then obtain w s' where i: "Session_init d = Inr (w, s')" and n: "data s' = None"
    using init_no_tables by blast
  from n have "compute_all s' = Inl AttributeError"
    by (simp add: compute_epoch_def compute_all_def)
  with i n show "\<exists>w s'. Session_init d = Inr (w, s') \<and> data s' = None \<and>
         compute_all s' = Inl AttributeError"
    by blast
next
  assume a: "data s = Some df \<and> json s = None \<and> ''Epoch number'' \<notin> set (column_names df) \<and>
    ''Learning rate'' \<notin> set (column_names df)"
  then show "compute_epoch s = Inr ([WarnNoEpoch], s)"
    "compute_lr s = Inr ([WarnNoLearningRate], s)"
    "compute_all s = Inr ([WarnNoEpoch, WarnNoLearningRate], s)"
    by (simp_all add: compute_epoch_def compute_lr_def compute_all_def)
qed

theorem compute_without_table_raises_witness:
  "compute_epoch \<lparr>name = ''run'', path = ''run'', config = None,
                   json = Some [(''dataset'', JStr ''mnist''), (''learning_rate'', JNum 0.1)],
                   data = None\<rparr> = Inl AttributeError \<and>
   compute_lr \<lparr>name = ''run'', path = ''run'', config = None,
                json = Some [(''dataset'', JStr ''mnist''), (''learning_rate'', JNum 0.1)],
                data = None\<rparr> = Inl AttributeError \<and>
   compute_all \<lparr>name = ''run'', path = ''run'', config = None,
                 json = Some [(''dataset'', JStr ''mnist''), (''learning_rate'', JNum 0.1)],
                 data = None\<rparr> = Inl AttributeError \<and>
   compute_all \<lparr>name = ''run'', path = ''run'', config = None, json = None,
                 data = Some \<lparr>index_name = Some ''Step number'', index = [0],
                              columns = [(''Loss'', [Num 1])]\<rparr>\<rparr> =
     Inr ([WarnNoEpoch, WarnNoLearningRate],
          \<lparr>name = ''run'', path = ''run'', config = None, json = None,
           data = Some \<lparr>index_name = Some ''Step number'', index = [0],
                        columns = [(''Loss'', [Num 1])]\<rparr>\<rparr>)"
proof -
  define s where "s = \<lparr>name = ''run'', path = ''run'', config = None,
                   json = Some [(''dataset'', JStr ''mnist''), (''learning_rate'', JNum 0.1)],
                   data = None\<rparr>"
  define df where "df = \<lparr>index_name = Some ''Step number'', index = [0::int],
                              columns = [(''Loss'', [Num 1])]\<rparr>"
  define t where "t = \<lparr>name = ''run'', path = ''run'', config = None, json = None,
                 data = Some df\<rparr>"
  have "data s = None" by (simp add: s_def)
  then have 1: "compute_epoch s = Inl AttributeError \<and> compute_lr s = Inl AttributeError \<and>
      compute_all s = Inl AttributeError"
    using compute_without_table_raises [where s = s] by blast
  have "data t = Some df \<and> json t = None \<and> ''Epoch number'' \<notin> set (column_names df) \<and>
    ''Learning rate'' \<notin> set (column_names df)"
    by (simp add: t_def df_def column_names_def)
  then have 2: "compute_all t = Inr ([WarnNoEpoch, WarnNoLearningRate], t)"
    using compute_without_table_raises [where s = t and df = df] by blast
  from 1 2 show ?thesis
    unfolding s_def t_def df_def by (intro conjI) simp_all
qed

text \<open>
  Claim C5, as the specification words it, fails in its last part.  Both logs are read
  as tab-separated text with the first column as the index, which is then named "Step
  number"; the padded \<^verbatim>\<open>nan\<close> literal is given as a missing-value marker for
  \<^verbatim>\<open>study\<close> alone.  With a reader that turns a cell into a missing value when its
  text is among the markers it was given, a file whose only cell is the padded literal
  keeps that text when it is read as \<^verbatim>\<open>eval\<close> and is a missing value when it is read as
  \<^verbatim>\<open>study\<close>.
\<close>

theorem eval_padded_nan_counterexample:
  "map_sum id (\<lambda>r. data (snd r))
     (Session_init \<lparr>dir_exists = True, is_dir = True, dir_name = ''run'', dir_path = ''run'',
        read_text = (\<lambda>f. None), json_load = (\<lambda>f. None),
        read_csv = (\<lambda>f opts. if f = ''eval''
          then Some \<lparr>index_name = None, index = [0],
                     columns = [(''Accuracy'',
                       [if ''     nan'' \<in> set (na_values opts) then NaN else Str ''     nan''])]\<rparr>
          else None)\<rparr>)
     = Inr (Some \<lparr>index_name = Some ''Step number'', index = [0],
                  columns = [(''Accuracy'', [Str ''     nan''])]\<rparr>) \<and>
   map_sum id (\<lambda>r. data (snd r))
     (Session_init \<lparr>dir_exists = True, is_dir = True, dir_name = ''run'', dir_path = ''run'',
        read_text = (\<lambda>f. None), json_load = (\<lambda>f. None),
        read_csv = (\<lambda>f opts. if f = ''study''
          then Some \<lparr>index_name = None, index = [0],
                     columns = [(''Accuracy'',
                       [if ''     nan'' \<in> set (na_values opts) then NaN else Str ''     nan''])]\<rparr>
          else None)\<rparr>)
     = Inr (Some \<lparr>index_name = Some ''Step number'', index = [0],
                  columns = [(''Accuracy'', [NaN])]\<rparr>)"
  by (simp add: Session_init_def load_study_def load_eval_def study_options_def
      eval_options_def)

text \<open>
  Claim C5, amended.  When only \<^verbatim>\<open>eval\<close> can be read, the table of the session is what
  the reader gives for \<^verbatim>\<open>eval\<close> with a tab as separator, column 0 as index and no
  missing-value marker of its own, with the index named "Step number".  When only
  \<^verbatim>\<open>study\<close> can be read, it is what the reader gives for \<^verbatim>\<open>study\<close> with the same
  separator and index column and the padded \<^verbatim>\<open>nan\<close> literal as marker, with the index
  named alike.
\<close>

theorem eval_read_options:
  "(dir_exists d \<and> read_csv d ''study'' study_options = None \<longrightarrow>
      (\<exists>w s. Session_init d = Inr (w, s) \<and>
         data s = map_option (\<lambda>df. df\<lparr>index_name := Some ''Step number''\<rparr>)
                    (read_csv d ''eval''
                       \<lparr>sep = [CHR 0x09], index_col = 0, na_values = []\<rparr>))) \<and>
   (dir_exists d \<and> read_csv d ''eval'' eval_options = None \<longrightarrow>
      (\<exists>w s. Session_init d = Inr (w, s) \<and>
         data s = map_option (\<lambda>df. df\<lparr>index_name := Some ''Step number''\<rparr>)
                    (read_csv d ''study''
                       \<lparr>sep = [CHR 0x09], index_col = 0, na_values = [''     nan'']\<rparr>)))"
  by (auto simp: Session_init_def load_study_def load_eval_def study_options_def
      eval_options_def split: option.splits)

theorem eval_read_options_witness:
  "(\<exists>w s. Session_init \<lparr>dir_exists = True, is_dir = True, dir_name = ''run'',
        dir_path = ''run'', read_text = (\<lambda>f. None), json_load = (\<lambda>f. None),
        read_csv = (\<lambda>f opts.
          if f = ''eval'' \<and> opts = \<lparr>sep = [CHR 0x09], index_col = 0, na_values = []\<rparr>
          then Some \<lparr>index_name = None, index = [0, 10],
                     columns = [(''Accuracy'', [Num 0.5, Num 0.75])]\<rparr>
          else None)\<rparr> = Inr (w, s) \<and>
      data s = Some \<lparr>index_name = Some ''Step number'', index = [0, 10],
                     columns = [(''Accuracy'', [Num 0.5, Num 0.75])]\<rparr>) \<and>
   (\<exists>w s. Session_init \<lparr>dir_exists = True, is_dir = True, dir_name = ''run'',
        dir_path = ''run'', read_text = (\<lambda>f. None), json_load = (\<lambda>f. None),
        read_csv = (\<lambda>f opts.
          if f = ''study'' \<and>
             opts = \<lparr>sep = [CHR 0x09], index_col = 0, na_values = [''     nan'']\<rparr>
          then Some \<lparr>index_name = None, index = [0, 1], columns = [(''Loss'', [Num 2, NaN])]\<rparr>
          else None)\<rparr> = Inr (w, s) \<and>
      data s = Some \<lparr>index_name = Some ''Step number'', index = [0, 1],
                     columns = [(''Loss'', [Num 2, NaN])]\<rparr>)"
proof -
  define E where "E = \<lparr>dir_exists = True, is_dir = True, dir_name = ''run'',
        dir_path = ''run'', read_text = (\<lambda>f. None), json_load = (\<lambda>f. None),
        read_csv = (\<lambda>f opts.
          if f = ''eval'' \<and> opts = \<lparr>sep = [CHR 0x09], index_col = 0, na_values = []\<rparr>
          then Some \<lparr>index_name = None, index = [0, 10],
                     columns = [(''Accuracy'', [Num 0.5, Num 0.75])]\<rparr>
          else None)\<rparr>"
  define S where "S = \<lparr>dir_exists = True, is_dir = True, dir_name = ''run'',
        dir_path = ''run'', read_text = (\<lambda>f. None), json_load = (\<lambda>f. None),
        read_csv = (\<lambda>f opts.
          if f = ''study'' \<and>
             opts = \<lparr>sep = [CHR 0x09], index_col = 0, na_values = [''     nan'']\<rparr>
          then Some \<lparr>index_name = None, index = [0, 1], columns = [(''Loss'', [Num 2, NaN])]\<rparr>
          else None)\<rparr>"
  have "dir_exists E \<and> read_csv E ''study'' study_options = None"
    by (simp add: E_def)
  with eval_read_options [where d = E]
  obtain w s where "Session_init E = Inr (w, s)"
    and "data s = map_option (\<lambda>df. df\<lparr>index_name := Some ''Step number''\<rparr>)
                    (read_csv E ''eval'' \<lparr>sep = [CHR 0x09], index_col = 0, na_values = []\<rparr>)"
    by blast
  then have 1: "\<exists>w s. Session_init E = Inr (w, s) \<and>
      data s = Some \<lparr>index_name = Some ''Step number'', index = [0, 10],
                     columns = [(''Accuracy'', [Num 0.5, Num 0.75])]\<rparr>"
    by (simp add: E_def)
  have "dir_exists S \<and> read_csv S ''eval'' eval_options = None"
    by (simp add: S_def)
  with eval_read_options [where d = S]
  obtain w s where "Session_init S = Inr (w, s)"
    and "data s = map_option (\<lambda>df. df\<lparr>index_name := Some ''Step number''\<rparr>)
                    (read_csv S ''study''
                       \<lparr>sep = [CHR 0x09], index_col = 0, na_values = [''     nan'']\<rparr>)"
    by blast
  then have 2: "\<exists>w s. Session_init S = Inr (w, s) \<and>
      data s = Some \<lparr>index_name = Some ''Step number'', index = [0, 1],
                     columns = [(''Loss'', [Num 2, NaN])]\<rparr>"
    by (simp add: S_def)
  from 1 2 show ?thesis
    unfolding E_def S_def by (rule conjI)
qed

subsection \<open>The learning rate column\<close>

lemma getitem_setitem_new:
  "n \<notin> set (column_names df) \<Longrightarrow> getitem (setitem df n cs) n = Inr cs"
proof -
  assume a: "n \<notin> set (column_names df)"
  then have "filter (\<lambda>c. fst c = n) (columns df) = []"
    by (auto simp: column_names_def filter_empty_conv)
  with a show ?thesis
    by (simp add: getitem_def setitem_def)
qed

lemma column_names_setitem:
  "n \<notin> set (column_names df) \<Longrightarrow> column_names (setitem df n cs) = column_names df @ [n]"
  by (simp add: setitem_def column_names_def)

lemma compute_lr_decay:
  assumes "data s = Some df" and "''Learning rate'' \<notin> set (column_names df)"
    and "json s = Some js" and "map_of js ''learning_rate'' = Some lr"
    and "as_number (json_get js ''learning_rate_decay'' (JInt 0)) = Some decay"
    and "decay > 0"
    and "as_number (json_get js ''learning_rate_decay_delta'' (JInt 1)) = Some delta"
    and "as_number lr = Some base"
  shows "compute_lr s =
     Inr ([], s\<lparr>data := Some (setitem df ''Learning rate''
        (map (lr_at base decay (json_get js ''learning_rate_decay_delta'' (JInt 1)))
           (index df)))\<rparr>)"
  using assms by (simp add: compute_lr_def)

lemma compute_lr_constant:
  assumes "data s = Some df" and "''Learning rate'' \<notin> set (column_names df)"
    and "json s = Some js" and "map_of js ''learning_rate'' = Some lr"
    and "as_number (json_get js ''learning_rate_decay'' (JInt 0)) = Some decay"
    and "\<not> decay > 0"
  shows "compute_lr s =
     Inr ([], s\<lparr>data := Some (setitem df ''Learning rate''
                               (replicate (length (index df)) (json_cell lr)))\<rparr>)"
  using assms by (simp add: compute_lr_def)

lemma wrap64_fits: "fits64 x \<Longrightarrow> wrap64 x = x"
  by (simp add: wrap64_def fits64_def)

lemma floor_multiple_int:
  assumes n: "as_int dj = Some n" and pos: "0 < n" "n < 2 ^ 63" and i: "0 \<le> i" "i < 2 ^ 63"
  shows "floor_multiple dj i = Some (of_int \<lfloor>of_int i / of_int n\<rfloor> * of_int n)"
proof -
  have q0: "0 \<le> i div n" using i pos by (simp add: pos_imp_zdiv_nonneg_iff)
  have m0: "0 \<le> i div n * n" using q0 pos by simp
  have "i div n * n + i mod n = i" by simp
  moreover have "0 \<le> i mod n" using pos by simp
  ultimately have mi: "i div n * n \<le> i" by linarith
  have "i div n * 1 \<le> i div n * n" using q0 pos by (intro mult_left_mono) simp_all
  with mi have qi: "i div n \<le> i" by simp
  have f1: "fits64 (i div n)" using q0 qi i by (simp add: fits64_def)
  have f2: "fits64 (i div n * n)" using m0 mi i by (simp add: fits64_def)
  have fn: "fits64 n" using pos by (simp add: fits64_def)
  have "floor_multiple dj i = Some (of_int (i div n * n))"
    using n pos fn by (simp add: floor_multiple_def wrap64_fits [OF f1] wrap64_fits [OF f2])
  also have "(of_int (i div n * n) :: real) = of_int \<lfloor>of_int i / of_int n\<rfloor> * of_int n"
    by (simp add: floor_divide_of_int_eq)
  finally show ?thesis .
qed

lemma floor_multiple_float:
  assumes "as_int dj = None" "as_number dj = Some x" "x \<noteq> 0"
  shows "floor_multiple dj i = Some (of_int \<lfloor>of_int i / x\<rfloor> * x)"
  using assms by (cases dj) (simp_all add: floor_multiple_def as_int_def as_number_def)

lemma as_int_number: "as_int dj = Some n \<Longrightarrow> as_number dj = Some (of_int n)"
  by (cases dj) (auto simp add: as_int_def as_number_def)

lemma floor_multiple_formula:
  assumes num: "as_number dj = Some delta" and pos: "0 < delta"
    and rng: "\<forall>n. as_int dj = Some n \<longrightarrow> n < 2 ^ 63"
    and i: "0 \<le> i" "i < 2 ^ 63"
  shows "floor_multiple dj i = Some (of_int \<lfloor>of_int i / delta\<rfloor> * delta)"
proof (cases "as_int dj")
  case None
  with num pos show ?thesis by (simp add: floor_multiple_float)
next
  case (Some n)
  with num have d: "delta = of_int n" by (simp add: as_int_number)
  with pos have n0: "0 < n" by simp
  from rng Some have n1: "n < 2 ^ 63" by simp
  show ?thesis
    unfolding d by (rule floor_multiple_int [OF Some n0 n1 i])
qed

lemma lr_at_formula:
  assumes num: "as_number dj = Some delta" and pos: "0 < delta" and dec: "0 < decay"
    and rng: "\<forall>n. as_int dj = Some n \<longrightarrow> n < 2 ^ 63"
    and i: "0 \<le> i" "i < 2 ^ 63"
  shows "lr_at base decay dj i =
     Num (base / (of_int \<lfloor>of_int i / delta\<rfloor> * delta / decay + 1))"
proof -
  have fm: "floor_multiple dj i = Some (of_int \<lfloor>of_int i / delta\<rfloor> * delta)"
    using num pos rng i by (rule floor_multiple_formula)
  have "0 \<le> of_int i / delta" using i pos by simp
  then have "0 \<le> \<lfloor>of_int i / delta\<rfloor>" by simp
  then have "0 \<le> of_int \<lfloor>of_int i / delta\<rfloor> * delta" using pos by simp
  then have "0 \<le> of_int \<lfloor>of_int i / delta\<rfloor> * delta / decay" using dec by simp
  then have "of_int \<lfloor>of_int i / delta\<rfloor> * delta / decay + 1 \<noteq> 0" by linarith
  with fm show ?thesis by (simp add: lr_at_def)
qed

text \<open>
  Claim C3, as the specification words it, fails: it gives the learning rate of every row
  as \<open>lr / (\<lfloor>i / delta\<rfloor> * delta / decay + 1)\<close>, and the table computes
  \<^verbatim>\<open>index // lr_delta * lr_delta\<close> on 64-bit integers, which wrap around.  At the step
  \<open>2^63 - 1\<close> with the step size \<open>- 2^62\<close>, the decay \<open>2^62\<close> and the rate 1,
  the product \<open>-2 * - 2^62\<close> wraps to \<open>- 2^63\<close> and the column holds \<open>-1\<close>, where
  the formula gives \<open>1 / 3\<close>.
\<close>

theorem lr_wraps_counterexample:
  "map_sum id (\<lambda>r. map_option (\<lambda>df. getitem df ''Learning rate'') (data (snd r)))
     (compute_lr \<lparr>name = ''run'', path = ''run'', config = None,
        json = Some [(''learning_rate'', JInt 1),
                     (''learning_rate_decay'', JInt 4611686018427387904),
                     (''learning_rate_decay_delta'', JInt (- 4611686018427387904))],
        data = Some \<lparr>index_name = Some ''Step number'', index = [9223372036854775807],
                     columns = [(''Loss'', [Num 1])]\<rparr>\<rparr>)
     = Inr (Some (Inr [Num (- 1)])) \<and>
   (1 :: real) / (of_int \<lfloor>9223372036854775807 / (- 4611686018427387904) :: real\<rfloor> *
                   (- 4611686018427387904) / 4611686018427387904 + 1) = 1 / 3"
  by (simp add: compute_lr_def column_names_def json_get_def as_number_def as_int_def
      lr_at_def floor_multiple_def fits64_def wrap64_def setitem_def getitem_def)

text \<open>
  Claim C3, amended.  \<^verbatim>\<open>compute_lr\<close> on a session whose table has no column
  \<^verbatim>\<open>Learning rate\<close> and whose JSON configuration has a key \<^verbatim>\<open>learning_rate\<close>: when
  the configured decay is positive, the call returns without warning, leaves the index and
  the existing columns as they were, and appends the column \<^verbatim>\<open>Learning rate\<close>, of one
  cell for every row; at every row whose step \<open>i\<close> is not negative, for a positive step
  size \<open>delta\<close> (below \<open>2^63\<close> when it is an integer), the cell is
  \<open>lr / (\<lfloor>i / delta\<rfloor> * delta / decay + 1)\<close>, a staircase that is constant on every
  block of \<open>delta\<close> steps.  When the decay is zero (its default) or negative, the
  appended column holds the configured rate at every step.  Floats are read as reals.
\<close>

theorem compute_lr_schedule:
  "data s = Some df \<and> ''Learning rate'' \<notin> set (column_names df) \<and> json s = Some js \<and>
   map_of js ''learning_rate'' = Some lr \<and>
   as_number (json_get js ''learning_rate_decay'' (JInt 0)) = Some decay \<longrightarrow>
     (decay > 0 \<and>
      as_number (json_get js ''learning_rate_decay_delta'' (JInt 1)) = Some delta \<and>
      as_number lr = Some base \<longrightarrow>
        (\<exists>s' df' col. compute_lr s = Inr ([], s') \<and> data s' = Some df' \<and>
           index df' = index df \<and>
           columns df' = columns df @ [(''Learning rate'', col)] \<and>
           getitem df' ''Learning rate'' = Inr col \<and>
           length col = length (index df) \<and>
           (\<forall>k < length (index df).
              0 \<le> index df ! k \<and> index df ! k < 2 ^ 63 \<and> 0 < delta \<and>
              (\<forall>n. as_int (json_get js ''learning_rate_decay_delta'' (JInt 1)) = Some n \<longrightarrow>
                   n < 2 ^ 63) \<longrightarrow>
                col ! k =
                  Num (base / (of_int \<lfloor>of_int (index df ! k) / delta\<rfloor> * delta / decay + 1))))) \<and>
     (decay \<le> 0 \<longrightarrow>
        (\<exists>s' df'. compute_lr s = Inr ([], s') \<and> data s' = Some df' \<and>
           index df' = index df \<and>
           columns df' = columns df @
             [(''Learning rate'', replicate (length (index df)) (json_cell lr))] \<and>
           getitem df' ''Learning rate'' =
             Inr (replicate (length (index df)) (json_cell lr)) \<and>
           (\<forall>x. as_number lr = Some x \<longrightarrow>
              getitem df' ''Learning rate'' = Inr (replicate (length (index df)) (Num x)))))"
proof (intro impI conjI)
  assume a: "data s = Some df \<and> ''Learning rate'' \<notin> set (column_names df) \<and>
    json s = Some js \<and> map_of js ''learning_rate'' = Some lr \<and>
    as_number (json_get js ''learning_rate_decay'' (JInt 0)) = Some decay"
  assume b: "decay > 0 \<and>
    as_number (json_get js ''learning_rate_decay_delta'' (JInt 1)) = Some delta \<and>
    as_number lr = Some base"
  let ?dj = "json_get js ''learning_rate_decay_delta'' (JInt 1)"
  let ?col = "map (lr_at base decay ?dj) (index df)"
  let ?df = "setitem df ''Learning rate'' ?col"
  let ?s = "s\<lparr>data := Some ?df\<rparr>"
  from a have new: "''Learning rate'' \<notin> set (column_names df)" by simp
  from a have a1: "data s = Some df" and a3: "json s = Some js"
    and a4: "map_of js ''learning_rate'' = Some lr"
    and a5: "as_number (json_get js ''learning_rate_decay'' (JInt 0)) = Some decay"
    by blast+
  from b have b1: "decay > 0" and b2: "as_number ?dj = Some delta"
    and b3: "as_number lr = Some base"
    by blast+
  have 1: "compute_lr s = Inr ([], ?s)"
    by (rule compute_lr_decay [OF a1 new a3 a4 a5 b1 b2 b3])
  have 2: "data ?s = Some ?df" by simp
  have 3: "index ?df = index df" by (simp add: setitem_def)
  have 4: "columns ?df = columns df @ [(''Learning rate'', ?col)]"
    using new by (simp add: setitem_def)
  have 5: "getitem ?df ''Learning rate'' = Inr ?col"
    using new by (rule getitem_setitem_new)
  have 6: "length ?col = length (index df)" by simp
  have 7: "\<forall>k < length (index df).
     0 \<le> index df ! k \<and> index df ! k < 2 ^ 63 \<and> 0 < delta \<and>
     (\<forall>n. as_int ?dj = Some n \<longrightarrow> n < 2 ^ 63) \<longrightarrow>
       ?col ! k = Num (base / (of_int \<lfloor>of_int (index df ! k) / delta\<rfloor> * delta / decay + 1))"
  proof (intro allI impI)
    fix k assume k: "k < length (index df)"
    assume h: "0 \<le> index df ! k \<and> index df ! k < 2 ^ 63 \<and> 0 < delta \<and>
      (\<forall>n. as_int ?dj = Some n \<longrightarrow> n < 2 ^ 63)"
    note num = b2 and dec = b1
    from h have pos: "0 < delta" and rng: "\<forall>n. as_int ?dj = Some n \<longrightarrow> n < 2 ^ 63"
      and i0: "0 \<le> index df ! k" and i1: "index df ! k < 2 ^ 63"
      by simp_all
    have "lr_at base decay ?dj (index df ! k) =
        Num (base / (of_int \<lfloor>of_int (index df ! k) / delta\<rfloor> * delta / decay + 1))"
      using num pos dec rng i0 i1 by (rule lr_at_formula)
    with k show "?col ! k =
        Num (base / (of_int \<lfloor>of_int (index df ! k) / delta\<rfloor> * delta / decay + 1))"
      by simp
  qed
  show "\<exists>s' df' col. compute_lr s = Inr ([], s') \<and> data s' = Some df' \<and>
           index df' = index df \<and>
           columns df' = columns df @ [(''Learning rate'', col)] \<and>
           getitem df' ''Learning rate'' = Inr col \<and>
           length col = length (index df) \<and>
           (\<forall>k < length (index df).
              0 \<le> index df ! k \<and> index df ! k < 2 ^ 63 \<and> 0 < delta \<and>
              (\<forall>n. as_int ?dj = Some n \<longrightarrow> n < 2 ^ 63) \<longrightarrow>
                col ! k =
                  Num (base / (of_int \<lfloor>of_int (index df ! k) / delta\<rfloor> * delta / decay + 1)))"
    by (rule exI [of _ ?s], rule exI [of _ ?df], rule exI [of _ ?col])
      (intro conjI 1 2 3 4 5 6 7)
next
  assume a: "data s = Some df \<and> ''Learning rate'' \<notin> set (column_names df) \<and>
    json s = Some js \<and> map_of js ''learning_rate'' = Some lr \<and>
    as_number (json_get js ''learning_rate_decay'' (JInt 0)) = Some decay"
  assume b: "decay \<le> 0"
  let ?col = "replicate (length (index df)) (json_cell lr)"
  let ?df = "setitem df ''Learning rate'' ?col"
  let ?s = "s\<lparr>data := Some ?df\<rparr>"
  from a have new: "''Learning rate'' \<notin> set (column_names df)" by simp
  from a have a1: "data s = Some df" and a3: "json s = Some js"
    and a4: "map_of js ''learning_rate'' = Some lr"
    and a5: "as_number (json_get js ''learning_rate_decay'' (JInt 0)) = Some decay"
    by blast+
  from b have b1: "\<not> decay > 0" by simp
  have 1: "compute_lr s = Inr ([], ?s)"
    by (rule compute_lr_constant [OF a1 new a3 a4 a5 b1])
  have 2: "data ?s = Some ?df" by simp
  have 3: "index ?df = index df" by (simp add: setitem_def)
  have 4: "columns ?df = columns df @ [(''Learning rate'', ?col)]"
    using new by (simp add: setitem_def)
  have 5: "getitem ?df ''Learning rate'' = Inr ?col"
    using new by (rule getitem_setitem_new)
  have 6: "\<forall>x. as_number lr = Some x \<longrightarrow>
      getitem ?df ''Learning rate'' = Inr (replicate (length (index df)) (Num x))"
  proof (intro allI impI)
    fix x assume "as_number lr = Some x"
    then have "json_cell lr = Num x"
      by (cases lr) (auto simp add: as_number_def json_cell_def)
    with 5 show "getitem ?df ''Learning rate'' = Inr (replicate (length (index df)) (Num x))"
      by simp
  qed
  show "\<exists>s' df'. compute_lr s = Inr ([], s') \<and> data s' = Some df' \<and>
           index df' = index df \<and>
           columns df' = columns df @
             [(''Learning rate'', replicate (length (index df)) (json_cell lr))] \<and>
           getitem df' ''Learning rate'' =
             Inr (replicate (length (index df)) (json_cell lr)) \<and>
           (\<forall>x. as_number lr = Some x \<longrightarrow>
              getitem df' ''Learning rate'' = Inr (replicate (length (index df)) (Num x)))"
    by (rule exI [of _ ?s], rule exI [of _ ?df]) (intro conjI 1 2 3 4 5 6)
qed

theorem compute_lr_schedule_witness:
  "(\<exists>s' df'. compute_lr \<lparr>name = ''run'', path = ''run'', config = None,
        json = Some [(''learning_rate'', JNum 0.1), (''learning_rate_decay'', JInt 100),
                     (''learning_rate_decay_delta'', JInt 10)],
        data = Some \<lparr>index_name = Some ''Step number'', index = [0, 5, 10, 25],
                     columns = [(''Loss'', [Num 4, Num 3, Num 2, Num 1])]\<rparr>\<rparr> = Inr ([], s') \<and>
      data s' = Some df' \<and>
      getitem df' ''Learning rate'' = Inr [Num 0.1, Num 0.1, Num (1 / 11), Num (1 / 12)]) \<and>
   (\<exists>s' df'. compute_lr \<lparr>name = ''run'', path = ''run'', config = None,
        json = Some [(''learning_rate'', JNum 0.1), (''learning_rate_decay'', JInt 0)],
        data = Some \<lparr>index_name = Some ''Step number'', index = [0, 5, 10, 25],
                     columns = [(''Loss'', [Num 4, Num 3, Num 2, Num 1])]\<rparr>\<rparr> = Inr ([], s') \<and>
      data s' = Some df' \<and>
      getitem df' ''Learning rate'' = Inr [Num 0.1, Num 0.1, Num 0.1, Num 0.1])"
proof -
  define df where "df = \<lparr>index_name = Some ''Step number'', index = [0, 5, 10, 25 :: int],
                     columns = [(''Loss'', [Num 4, Num 3, Num 2, Num 1])]\<rparr>"
  define js where "js = [(''learning_rate'', JNum 0.1), (''learning_rate_decay'', JInt 100),
                     (''learning_rate_decay_delta'', JInt 10)]"
  define s where "s = \<lparr>name = ''run'', path = ''run'', config = None, json = Some js,
        data = Some df\<rparr>"
  define js0 where "js0 = [(''learning_rate'', JNum 0.1), (''learning_rate_decay'', JInt 0)]"
  define s0 where "s0 = \<lparr>name = ''run'', path = ''run'', config = None, json = Some js0,
        data = Some df\<rparr>"
  have ix: "index df = [0, 5, 10, 25]" by (simp add: df_def)
  have dj: "json_get js ''learning_rate_decay_delta'' (JInt 1) = JInt 10"
    by (simp add: js_def json_get_def)
  have h: "data s = Some df \<and> ''Learning rate'' \<notin> set (column_names df) \<and> json s = Some js \<and>
     map_of js ''learning_rate'' = Some (JNum 0.1) \<and>
     as_number (json_get js ''learning_rate_decay'' (JInt 0)) = Some 100"
    by (simp add: s_def df_def js_def column_names_def json_get_def as_number_def)
  have h2: "(100::real) > 0 \<and>
     as_number (json_get js ''learning_rate_decay_delta'' (JInt 1)) = Some 10 \<and>
     as_number (JNum 0.1) = Some 0.1"
    by (simp add: dj as_number_def)
  from compute_lr_schedule [where s = s and df = df and js = js and lr = "JNum 0.1"
      and decay = 100 and delta = 10 and base = "0.1", THEN mp, OF h, THEN conjunct1,
      THEN mp, OF h2]
  obtain s' df' col where r: "compute_lr s = Inr ([], s')" "data s' = Some df'"
    "getitem df' ''Learning rate'' = Inr col" and len: "length col = length (index df)"
    and rows: "\<forall>k < length (index df).
       0 \<le> index df ! k \<and> index df ! k < 2 ^ 63 \<and> (0::real) < 10 \<and>
       (\<forall>n. as_int (json_get js ''learning_rate_decay_delta'' (JInt 1)) = Some n \<longrightarrow>
            n < 2 ^ 63) \<longrightarrow>
         col ! k = Num (0.1 / (of_int \<lfloor>of_int (index df ! k) / (10::real)\<rfloor> * 10 / 100 + 1))"
    by blast
  have rng: "\<forall>n. as_int (json_get js ''learning_rate_decay_delta'' (JInt 1)) = Some n \<longrightarrow>
      n < 2 ^ 63"
    by (simp add: dj as_int_def)
  from len obtain a b c d where col: "col = [a, b, c, d]"
    by (auto simp add: ix length_Suc_conv numeral_eq_Suc)
  have "col ! 0 = Num 0.1"
    using rows [rule_format, of 0] rng by (simp add: ix)
  moreover have "col ! 1 = Num 0.1"
    using rows [rule_format, of 1] rng by (simp add: ix)
  moreover have "col ! 2 = Num (1 / 11)"
    using rows [rule_format, of 2] rng by (simp add: ix)
  moreover have "col ! 3 = Num (1 / 12)"
    using rows [rule_format, of 3] rng by (simp add: ix numeral_3_eq_3)
  ultimately have "col = [Num 0.1, Num 0.1, Num (1 / 11), Num (1 / 12)]"
    by (simp add: col numeral_3_eq_3)
  with r have 1: "\<exists>s' df'. compute_lr s = Inr ([], s') \<and> data s' = Some df' \<and>
      getitem df' ''Learning rate'' = Inr [Num 0.1, Num 0.1, Num (1 / 11), Num (1 / 12)]"
    by auto
  have h0: "data s0 = Some df \<and> ''Learning rate'' \<notin> set (column_names df) \<and>
     json s0 = Some js0 \<and> map_of js0 ''learning_rate'' = Some (JNum 0.1) \<and>
     as_number (json_get js0 ''learning_rate_decay'' (JInt 0)) = Some 0"
    by (simp add: s0_def df_def js0_def column_names_def json_get_def as_number_def)
  have rep: "replicate (length (index df)) (Num 0.1) = [Num 0.1, Num 0.1, Num 0.1, Num 0.1]"
    by (simp add: ix numeral_eq_Suc)
  have z: "(0::real) \<le> 0" by simp
  from compute_lr_schedule [where s = s0 and df = df and js = js0 and lr = "JNum 0.1"
      and decay = 0, THEN mp, OF h0, THEN conjunct2, THEN mp, OF z]
  obtain s' df' where "compute_lr s0 = Inr ([], s')" "data s' = Some df'"
    "getitem df' ''Learning rate'' = Inr (replicate (length (index df)) (json_cell (JNum 0.1)))"
    by blast
  then have 2: "\<exists>s' df'. compute_lr s0 = Inr ([], s') \<and> data s' = Some df' \<and>
      getitem df' ''Learning rate'' = Inr [Num 0.1, Num 0.1, Num 0.1, Num 0.1]"
    using rep by (auto simp add: json_cell_def)
  from 1 2 show ?thesis
    unfolding s_def s0_def js_def js0_def df_def by (rule conjI)
qed

subsection \<open>The epoch column\<close>

lemma map_raise_length: "map_raise f xs = Inr ys \<Longrightarrow> length ys = length xs"
  by (induction xs arbitrary: ys) (auto split: sum.splits)

lemma map_raise_nth:
  "map_raise f xs = Inr ys \<Longrightarrow> k < length xs \<Longrightarrow> f (xs ! k) = Inr (ys ! k)"
proof (induction xs arbitrary: ys k)
  case Nil
  then show ?case by simp
next
  case (Cons x xs)
  then show ?case by (cases k) (auto split: sum.splits)
qed

lemma map_raise_total:
  "(\<And>x. x \<in> set xs \<Longrightarrow> \<exists>y. f x = Inr y) \<Longrightarrow> \<exists>ys. map_raise f xs = Inr ys"
proof (induction xs)
  case Nil
  then show ?case by simp
next
  case (Cons x xs)
  then obtain y where "f x = Inr y" by auto
  moreover from Cons obtain ys where "map_raise f xs = Inr ys" by auto
  ultimately show ?case by simp
qed

lemma cell_div_total: "\<forall>t. c \<noteq> Str t \<Longrightarrow> \<exists>y. cell_div n c = Inr y"
  by (cases c) auto

lemma training_size_of_known:
  "training_size_of v = Some n \<longleftrightarrow>
     (v = JStr ''mnist'' \<and> n = 60000) \<or> (v = JStr ''fashionmnist'' \<and> n = 60000) \<or>
     (v = JStr ''cifar10'' \<and> n = 50000) \<or> (v = JStr ''cifar100'' \<and> n = 50000)"
  by (cases v) (auto simp add: training_size_of_def training_sizes_def split: if_splits)

lemma compute_epoch_present:
  "data s = Some df \<Longrightarrow> ''Epoch number'' \<in> set (column_names df) \<Longrightarrow>
   compute_epoch s = Inr ([], s)"
  by (simp add: compute_epoch_def)

lemma compute_epoch_known:
  assumes "data s = Some df" "''Epoch number'' \<notin> set (column_names df)"
    "json s = Some js" "map_of js ''dataset'' = Some v" "training_size_of v = Some n"
    "getitem df ''Training point count'' = Inr counts"
    "map_raise (cell_div (real n)) counts = Inr epochs"
  shows "compute_epoch s = Inr ([], s\<lparr>data := Some (setitem df ''Epoch number'' epochs)\<rparr>)"
  using assms by (simp add: compute_epoch_def)

lemma compute_epoch_string:
  assumes "data s = Some df" "''Epoch number'' \<notin> set (column_names df)"
    "json s = Some js" "map_of js ''dataset'' = Some v" "training_size_of v = Some n"
    "getitem df ''Training point count'' = Inr counts"
    "map_raise (cell_div (real n)) counts = Inl e"
  shows "compute_epoch s = Inl e"
  using assms by (simp add: compute_epoch_def)

text \<open>
  Claim C4. \<^verbatim>\<open>compute_epoch\<close> on a session with a table: when the column
  \<^verbatim>\<open>Epoch number\<close> exists the call changes nothing and warns of nothing.  Otherwise,
  when the JSON configuration names a known dataset under \<^verbatim>\<open>dataset\<close> and the column
  \<^verbatim>\<open>Training point count\<close> holds no string, the call appends the column
  \<^verbatim>\<open>Epoch number\<close>, of one cell for every row: the count of the row divided by the size
  of the training set where the row has a count, and the missing or infinite value of the
  row where it has none.  It leaves everything else as it was, and a second call changes
  nothing.  The known datasets are exactly \<^verbatim>\<open>mnist\<close> and \<^verbatim>\<open>fashionmnist\<close> (60000)
  and \<^verbatim>\<open>cifar10\<close> and \<^verbatim>\<open>cifar100\<close> (50000).  An unknown dataset, a configuration
  without the key \<^verbatim>\<open>dataset\<close> and an absent configuration each give one warning and
  the session unchanged.
\<close>

theorem compute_epoch_column:
  "(data s = Some df \<and> ''Epoch number'' \<in> set (column_names df) \<longrightarrow>
      compute_epoch s = Inr ([], s)) \<and>
   (data s = Some df \<and> ''Epoch number'' \<notin> set (column_names df) \<and> json s = Some js \<and>
    map_of js ''dataset'' = Some v \<and> training_size_of v = Some n \<and>
    getitem df ''Training point count'' = Inr counts \<and>
    (\<forall>c \<in> set counts. \<forall>t. c \<noteq> Str t) \<longrightarrow>
      (\<exists>s' df' epochs. compute_epoch s = Inr ([], s') \<and> data s' = Some df' \<and>
         name s' = name s \<and> path s' = path s \<and> config s' = config s \<and> json s' = json s \<and>
         index_name df' = index_name df \<and> index df' = index df \<and>
         columns df' = columns df @ [(''Epoch number'', epochs)] \<and>
         getitem df' ''Epoch number'' = Inr epochs \<and>
         length epochs = length counts \<and>
         (\<forall>k < length counts.
            (\<forall>x. counts ! k = Num x \<longrightarrow> epochs ! k = Num (x / real n)) \<and>
            (counts ! k = NaN \<longrightarrow> epochs ! k = NaN) \<and>
            (counts ! k = PosInf \<longrightarrow> epochs ! k = PosInf) \<and>
            (counts ! k = NegInf \<longrightarrow> epochs ! k = NegInf)) \<and>
         compute_epoch s' = Inr ([], s'))) \<and>
   (training_size_of v = Some n \<longleftrightarrow>
      (v = JStr ''mnist'' \<and> n = 60000) \<or> (v = JStr ''fashionmnist'' \<and> n = 60000) \<or>
      (v = JStr ''cifar10'' \<and> n = 50000) \<or> (v = JStr ''cifar100'' \<and> n = 50000)) \<and>
   (data s = Some df \<and> ''Epoch number'' \<notin> set (column_names df) \<and> json s = Some js \<and>
    map_of js ''dataset'' = Some v \<and> training_size_of v = None \<longrightarrow>
      compute_epoch s = Inr ([WarnUnknownDataset], s)) \<and>
   (data s = Some df \<and> ''Epoch number'' \<notin> set (column_names df) \<and>
    (json s = None \<or> (\<exists>js'. json s = Some js' \<and> map_of js' ''dataset'' = None)) \<longrightarrow>
      compute_epoch s = Inr ([WarnNoEpoch], s))"
proof (intro conjI impI)
  assume "data s = Some df \<and> ''Epoch number'' \<in> set (column_names df)"
  then show "compute_epoch s = Inr ([], s)"
    by (simp add: compute_epoch_present)
next
  assume a: "data s = Some df \<and> ''Epoch number'' \<notin> set (column_names df) \<and> json s = Some js \<and>
    map_of js ''dataset'' = Some v \<and> training_size_of v = Some n \<and>
    getitem df ''Training point count'' = Inr counts \<and>
    (\<forall>c \<in> set counts. \<forall>t. c \<noteq> Str t)"
  then have a1: "data s = Some df" and new: "''Epoch number'' \<notin> set (column_names df)"
    and a3: "json s = Some js" and a4: "map_of js ''dataset'' = Some v"
    and a5: "training_size_of v = Some n"
    and a6: "getitem df ''Training point count'' = Inr counts"
    and a7: "\<forall>c \<in> set counts. \<forall>t. c \<noteq> Str t"
    by blast+
  have "\<exists>ys. map_raise (cell_div (real n)) counts = Inr ys"
    using a7 by (intro map_raise_total cell_div_total) blast
  then obtain epochs where ep: "map_raise (cell_div (real n)) counts = Inr epochs" by blast
  let ?df = "setitem df ''Epoch number'' epochs"
  let ?s = "s\<lparr>data := Some ?df\<rparr>"
  have 1: "compute_epoch s = Inr ([], ?s)"
    by (rule compute_epoch_known [OF a1 new a3 a4 a5 a6 ep])
  have 2: "data ?s = Some ?df" by simp
  have 3: "name ?s = name s" "path ?s = path s" "config ?s = config s" "json ?s = json s"
    by simp_all
  have 4: "index_name ?df = index_name df" "index ?df = index df"
    by (simp_all add: setitem_def)
  have 5: "columns ?df = columns df @ [(''Epoch number'', epochs)]"
    using new by (simp add: setitem_def)
  have 6: "getitem ?df ''Epoch number'' = Inr epochs"
    using new by (rule getitem_setitem_new)
  have 7: "length epochs = length counts"
    using ep by (rule map_raise_length)
  have 8: "\<forall>k < length counts.
            (\<forall>x. counts ! k = Num x \<longrightarrow> epochs ! k = Num (x / real n)) \<and>
            (counts ! k = NaN \<longrightarrow> epochs ! k = NaN) \<and>
            (counts ! k = PosInf \<longrightarrow> epochs ! k = PosInf) \<and>
            (counts ! k = NegInf \<longrightarrow> epochs ! k = NegInf)"
  proof (intro allI impI)
    fix k assume "k < length counts"
    with ep have "cell_div (real n) (counts ! k) = Inr (epochs ! k)"
      by (rule map_raise_nth)
    then show "(\<forall>x. counts ! k = Num x \<longrightarrow> epochs ! k = Num (x / real n)) \<and>
            (counts ! k = NaN \<longrightarrow> epochs ! k = NaN) \<and>
            (counts ! k = PosInf \<longrightarrow> epochs ! k = PosInf) \<and>
            (counts ! k = NegInf \<longrightarrow> epochs ! k = NegInf)"
      by (cases "counts ! k") auto
  qed
  have "''Epoch number'' \<in> set (column_names ?df)"
    using new by (simp add: column_names_setitem)
  with 2 have 9: "compute_epoch ?s = Inr ([], ?s)"
    by (rule compute_epoch_present)
  show "\<exists>s' df' epochs. compute_epoch s = Inr ([], s') \<and> data s' = Some df' \<and>
         name s' = name s \<and> path s' = path s \<and> config s' = config s \<and> json s' = json s \<and>
         index_name df' = index_name df \<and> index df' = index df \<and>
         columns df' = columns df @ [(''Epoch number'', epochs)] \<and>
         getitem df' ''Epoch number'' = Inr epochs \<and>
         length epochs = length counts \<and>
         (\<forall>k < length counts.
            (\<forall>x. counts ! k = Num x \<longrightarrow> epochs ! k = Num (x / real n)) \<and>
            (counts ! k = NaN \<longrightarrow> epochs ! k = NaN) \<and>
            (counts ! k = PosInf \<longrightarrow> epochs ! k = PosInf) \<and>
            (counts ! k = NegInf \<longrightarrow> epochs ! k = NegInf)) \<and>
         compute_epoch s' = Inr ([], s')"
    by (rule exI [of _ ?s], rule exI [of _ ?df], rule exI [of _ epochs])
      (intro conjI 1 2 3 4 5 6 7 8 9)
next
  show "training_size_of v = Some n \<longleftrightarrow>
      (v = JStr ''mnist'' \<and> n = 60000) \<or> (v = JStr ''fashionmnist'' \<and> n = 60000) \<or>
      (v = JStr ''cifar10'' \<and> n = 50000) \<or> (v = JStr ''cifar100'' \<and> n = 50000)"
    by (rule training_size_of_known)
next
  assume "data s = Some df \<and> ''Epoch number'' \<notin> set (column_names df) \<and> json s = Some js \<and>
    map_of js ''dataset'' = Some v \<and> training_size_of v = None"
  then show "compute_epoch s = Inr ([WarnUnknownDataset], s)"
    by (simp add: compute_epoch_def)
next
  assume "data s = Some df \<and> ''Epoch number'' \<notin> set (column_names df) \<and>
    (json s = None \<or> (\<exists>js'. json s = Some js' \<and> map_of js' ''dataset'' = None))"
  then show "compute_epoch s = Inr ([WarnNoEpoch], s)"
    by (auto simp add: compute_epoch_def)
qed

theorem compute_epoch_column_witness:
  "(\<exists>s' df'. compute_epoch \<lparr>name = ''run'', path = ''run'', config = None,
        json = Some [(''dataset'', JStr ''mnist'')],
        data = Some \<lparr>index_name = Some ''Step number'', index = [100, 200],
                     columns = [(''Training point count'', [Num 60000, Num 120000])]\<rparr>\<rparr>
        = Inr ([], s') \<and>
      data s' = Some df' \<and> index df' = [100, 200] \<and>
      getitem df' ''Epoch number'' = Inr [Num 1, Num 2] \<and>
      compute_epoch s' = Inr ([], s')) \<and>
   (\<exists>s' df'. compute_epoch \<lparr>name = ''run'', path = ''run'', config = None,
        json = Some [(''dataset'', JStr ''cifar10'')],
        data = Some \<lparr>index_name = Some ''Step number'', index = [100, 150, 200],
                     columns = [(''Training point count'', [Num 50000, NaN, Num 100000])]\<rparr>\<rparr>
        = Inr ([], s') \<and>
      data s' = Some df' \<and>
      getitem df' ''Epoch number'' = Inr [Num 1, NaN, Num 2]) \<and>
   compute_epoch \<lparr>name = ''run'', path = ''run'', config = None,
        json = Some [(''dataset'', JStr ''mnist'')],
        data = Some \<lparr>index_name = Some ''Step number'', index = [100, 200],
                     columns = [(''Training point count'', [Num 60000, Num 120000]),
                                (''Epoch number'', [Num 7, Num 8])]\<rparr>\<rparr>
     = Inr ([], \<lparr>name = ''run'', path = ''run'', config = None,
        json = Some [(''dataset'', JStr ''mnist'')],
        data = Some \<lparr>index_name = Some ''Step number'', index = [100, 200],
                     columns = [(''Training point count'', [Num 60000, Num 120000]),
                                (''Epoch number'', [Num 7, Num 8])]\<rparr>\<rparr>) \<and>
   compute_epoch \<lparr>name = ''run'', path = ''run'', config = None,
        json = Some [(''dataset'', JStr ''imagenet'')],
        data = Some \<lparr>index_name = Some ''Step number'', index = [100, 200],
                     columns = [(''Training point count'', [Num 60000, Num 120000])]\<rparr>\<rparr>
     = Inr ([WarnUnknownDataset], \<lparr>name = ''run'', path = ''run'', config = None,
        json = Some [(''dataset'', JStr ''imagenet'')],
        data = Some \<lparr>index_name = Some ''Step number'', index = [100, 200],
                     columns = [(''Training point count'', [Num 60000, Num 120000])]\<rparr>\<rparr>) \<and>
   compute_epoch \<lparr>name = ''run'', path = ''run'', config = None,
        json = Some [(''seed'', JInt 1)],
        data = Some \<lparr>index_name = Some ''Step number'', index = [100, 200],
                     columns = [(''Training point count'', [Num 60000, Num 120000])]\<rparr>\<rparr>
     = Inr ([WarnNoEpoch], \<lparr>name = ''run'', path = ''run'', config = None,
        json = Some [(''seed'', JInt 1)],
        data = Some \<lparr>index_name = Some ''Step number'', index = [100, 200],
                     columns = [(''Training point count'', [Num 60000, Num 120000])]\<rparr>\<rparr>)"
proof -
  define df where "df = \<lparr>index_name = Some ''Step number'', index = [100, 200 :: int],
                     columns = [(''Training point count'', [Num 60000, Num 120000])]\<rparr>"
  define dfn where "dfn = \<lparr>index_name = Some ''Step number'', index = [100, 150, 200 :: int],
                     columns = [(''Training point count'', [Num 50000, NaN, Num 100000])]\<rparr>"
  define dfe where "dfe = \<lparr>index_name = Some ''Step number'', index = [100, 200 :: int],
                     columns = [(''Training point count'', [Num 60000, Num 120000]),
                                (''Epoch number'', [Num 7, Num 8])]\<rparr>"
  define js where "js = [(''dataset'', JStr ''mnist'')]"
  define jc where "jc = [(''dataset'', JStr ''cifar10'')]"
  define ju where "ju = [(''dataset'', JStr ''imagenet'')]"
  define jn where "jn = [(''seed'', JInt 1)]"
  define s where "s = \<lparr>name = ''run'', path = ''run'', config = None, json = Some js,
        data = Some df\<rparr>"
  define sc where "sc = \<lparr>name = ''run'', path = ''run'', config = None, json = Some jc,
        data = Some dfn\<rparr>"
  define se where "se = \<lparr>name = ''run'', path = ''run'', config = None, json = Some js,
        data = Some dfe\<rparr>"
  define su where "su = \<lparr>name = ''run'', path = ''run'', config = None, json = Some ju,
        data = Some df\<rparr>"
  define sn where "sn = \<lparr>name = ''run'', path = ''run'', config = None, json = Some jn,
        data = Some df\<rparr>"
  have new: "''Epoch number'' \<notin> set (column_names df)"
    by (simp add: df_def column_names_def)
  have h: "data s = Some df \<and> ''Epoch number'' \<notin> set (column_names df) \<and> json s = Some js \<and>
    map_of js ''dataset'' = Some (JStr ''mnist'') \<and> training_size_of (JStr ''mnist'') = Some 60000 \<and>
    getitem df ''Training point count'' = Inr [Num 60000, Num 120000] \<and>
    (\<forall>c \<in> set [Num 60000, Num 120000]. \<forall>t. c \<noteq> Str t)"
    using new by (simp add: s_def js_def training_size_of_def training_sizes_def)
      (simp add: df_def getitem_def)
  from compute_epoch_column [where s = s and df = df and js = js and v = "JStr ''mnist''"
      and n = 60000 and counts = "[Num 60000, Num 120000]", THEN conjunct2, THEN conjunct1,
      THEN mp, OF h]
  obtain s' df' epochs where r: "compute_epoch s = Inr ([], s')" "data s' = Some df'"
    "index df' = index df" "getitem df' ''Epoch number'' = Inr epochs"
    "compute_epoch s' = Inr ([], s')"
    and len: "length epochs = length [Num 60000, Num 120000]"
    and rows: "\<forall>k < length [Num 60000, Num 120000].
       (\<forall>x. [Num 60000, Num 120000] ! k = Num x \<longrightarrow> epochs ! k = Num (x / real 60000)) \<and>
       ([Num 60000, Num 120000] ! k = NaN \<longrightarrow> epochs ! k = NaN) \<and>
       ([Num 60000, Num 120000] ! k = PosInf \<longrightarrow> epochs ! k = PosInf) \<and>
       ([Num 60000, Num 120000] ! k = NegInf \<longrightarrow> epochs ! k = NegInf)"
    by blast
  from len obtain a b where ep: "epochs = [a, b]"
    by (auto simp add: length_Suc_conv)
  have "epochs ! 0 = Num 1" using rows [rule_format, of 0] by simp
  moreover have "epochs ! 1 = Num 2" using rows [rule_format, of 1] by simp
  ultimately have "epochs = [Num 1, Num 2]" by (simp add: ep)
  with r have 1: "\<exists>s' df'. compute_epoch s = Inr ([], s') \<and> data s' = Some df' \<and>
      index df' = [100, 200] \<and> getitem df' ''Epoch number'' = Inr [Num 1, Num 2] \<and>
      compute_epoch s' = Inr ([], s')"
    by (auto simp add: df_def)
  have hc: "data sc = Some dfn \<and> ''Epoch number'' \<notin> set (column_names dfn) \<and>
    json sc = Some jc \<and> map_of jc ''dataset'' = Some (JStr ''cifar10'') \<and>
    training_size_of (JStr ''cifar10'') = Some 50000 \<and>
    getitem dfn ''Training point count'' = Inr [Num 50000, NaN, Num 100000] \<and>
    (\<forall>c \<in> set [Num 50000, NaN, Num 100000]. \<forall>t. c \<noteq> Str t)"
    by (simp add: sc_def jc_def training_size_of_def training_sizes_def)
      (simp add: dfn_def getitem_def column_names_def)
  from compute_epoch_column [where s = sc and df = dfn and js = jc and v = "JStr ''cifar10''"
      and n = 50000 and counts = "[Num 50000, NaN, Num 100000]", THEN conjunct2,
      THEN conjunct1, THEN mp, OF hc]
  obtain s' df' epochs where r: "compute_epoch sc = Inr ([], s')" "data s' = Some df'"
    "getitem df' ''Epoch number'' = Inr epochs"
    and len: "length epochs = length [Num 50000, NaN, Num 100000]"
    and rows: "\<forall>k < length [Num 50000, NaN, Num 100000].
       (\<forall>x. [Num 50000, NaN, Num 100000] ! k = Num x \<longrightarrow> epochs ! k = Num (x / real 50000)) \<and>
       ([Num 50000, NaN, Num 100000] ! k = NaN \<longrightarrow> epochs ! k = NaN) \<and>
       ([Num 50000, NaN, Num 100000] ! k = PosInf \<longrightarrow> epochs ! k = PosInf) \<and>
       ([Num 50000, NaN, Num 100000] ! k = NegInf \<longrightarrow> epochs ! k = NegInf)"
    by blast
  from len obtain a b c where ep: "epochs = [a, b, c]"
    by (auto simp add: length_Suc_conv)
  have "epochs ! 0 = Num 1" using rows [rule_format, of 0] by simp
  moreover have "epochs ! 1 = NaN" using rows [rule_format, of 1] by simp
  moreover have "epochs ! 2 = Num 2" using rows [rule_format, of 2] by simp
  ultimately have "epochs = [Num 1, NaN, Num 2]" by (simp add: ep)
  with r have 5: "\<exists>s' df'. compute_epoch sc = Inr ([], s') \<and> data s' = Some df' \<and>
      getitem df' ''Epoch number'' = Inr [Num 1, NaN, Num 2]"
    by auto
  have "data se = Some dfe \<and> ''Epoch number'' \<in> set (column_names dfe)"
    by (simp add: se_def dfe_def column_names_def)
  then have 2: "compute_epoch se = Inr ([], se)"
    by (rule compute_epoch_column [where s = se and df = dfe, THEN conjunct1, THEN mp])
  have "data su = Some df \<and> ''Epoch number'' \<notin> set (column_names df) \<and> json su = Some ju \<and>
    map_of ju ''dataset'' = Some (JStr ''imagenet'') \<and> training_size_of (JStr ''imagenet'') = None"
    using new by (simp add: su_def ju_def training_size_of_def training_sizes_def)
  then have 3: "compute_epoch su = Inr ([WarnUnknownDataset], su)"
    by (rule compute_epoch_column [where s = su and df = df and js = ju
          and v = "JStr ''imagenet''", THEN conjunct2, THEN conjunct2, THEN conjunct2,
          THEN conjunct1, THEN mp])
  have "data sn = Some df \<and> ''Epoch number'' \<notin> set (column_names df) \<and>
    (json sn = None \<or> (\<exists>js'. json sn = Some js' \<and> map_of js' ''dataset'' = None))"
    using new by (simp add: sn_def jn_def)
  then have 4: "compute_epoch sn = Inr ([WarnNoEpoch], sn)"
    by (rule compute_epoch_column [where s = sn and df = df, THEN conjunct2, THEN conjunct2,
          THEN conjunct2, THEN conjunct2, THEN mp])
  from 1 5 2 3 4 show ?thesis
    unfolding s_def sc_def se_def su_def sn_def js_def jc_def ju_def jn_def df_def dfn_def
      dfe_def
    by (intro conjI)
qed

subsection \<open>The merged table\<close>

lemma positions_iff: "i \<in> set (positions k ks) \<longleftrightarrow> i < length ks \<and> ks ! i = k"
  by (auto simp add: positions_def)

lemma positions_empty: "positions k ks = [] \<longleftrightarrow> k \<notin> set ks"
  by (auto simp add: positions_def filter_empty_conv in_set_conv_nth)

lemma rows_of_None: "None \<in> set (rows_of k ks) \<longleftrightarrow> k \<notin> set ks"
  by (auto simp add: rows_of_def positions_empty)

lemma rows_of_Some: "Some i \<in> set (rows_of k ks) \<longleftrightarrow> i < length ks \<and> ks ! i = k"
  by (auto simp add: rows_of_def positions_iff positions_empty)

lemma rows_of_nonempty: "rows_of k ks \<noteq> []"
  by (simp add: rows_of_def)

lemma join_keys_set: "set (join_keys l r) = set l \<union> set r"
  by (auto simp add: join_keys_def)

lemma join_rows_iff:
  "(k, a, b) \<in> set (join_rows l r) \<longleftrightarrow>
     k \<in> set l \<union> set r \<and> a \<in> set (rows_of k l) \<and> b \<in> set (rows_of k r)"
proof (cases "r = []")
  case True
  have "(k, a, b) \<in> set (map (\<lambda>i. (l ! i, Some i, None)) [0..<length l]) \<longleftrightarrow>
      k \<in> set l \<and> a \<in> set (rows_of k l) \<and> b = None"
  proof
    assume "(k, a, b) \<in> set (map (\<lambda>i. (l ! i, Some i, None)) [0..<length l])"
    then obtain i where "i < length l" "k = l ! i" "a = Some i" "b = None" by auto
    then show "k \<in> set l \<and> a \<in> set (rows_of k l) \<and> b = None"
      by (simp add: rows_of_Some)
  next
    assume h: "k \<in> set l \<and> a \<in> set (rows_of k l) \<and> b = None"
    have "a \<noteq> None"
    proof
      assume "a = None"
      with h have "None \<in> set (rows_of k l)" by simp
      then have "k \<notin> set l" by (simp add: rows_of_None)
      with h show False by simp
    qed
    then obtain i where a: "a = Some i" by (cases a) auto
    with h have "i < length l \<and> l ! i = k" by (simp add: rows_of_Some)
    with a h show "(k, a, b) \<in> set (map (\<lambda>i. (l ! i, Some i, None)) [0..<length l])"
      by auto
  qed
  with True show ?thesis
    by (simp add: join_rows_def rows_of_def positions_def)
next
  case False
  show ?thesis
  proof (cases "l = []")
    case True
    have "(k, a, b) \<in> set (map (\<lambda>i. (r ! i, None, Some i)) [0..<length r]) \<longleftrightarrow>
        k \<in> set r \<and> a = None \<and> b \<in> set (rows_of k r)"
    proof
      assume "(k, a, b) \<in> set (map (\<lambda>i. (r ! i, None, Some i)) [0..<length r])"
      then obtain i where "i < length r" "k = r ! i" "b = Some i" "a = None" by auto
      then show "k \<in> set r \<and> a = None \<and> b \<in> set (rows_of k r)"
        by (simp add: rows_of_Some)
    next
      assume h: "k \<in> set r \<and> a = None \<and> b \<in> set (rows_of k r)"
      have "b \<noteq> None"
      proof
        assume "b = None"
        with h have "None \<in> set (rows_of k r)" by simp
        then have "k \<notin> set r" by (simp add: rows_of_None)
        with h show False by simp
      qed
      then obtain i where b: "b = Some i" by (cases b) auto
      with h have "i < length r \<and> r ! i = k" by (simp add: rows_of_Some)
      with b h show "(k, a, b) \<in> set (map (\<lambda>i. (r ! i, None, Some i)) [0..<length r])"
        by auto
    qed
    with True False show ?thesis
      by (simp add: join_rows_def rows_of_def positions_def)
  next
    case nl: False
    with False show ?thesis
      by (auto simp add: join_rows_def join_keys_set)
  qed
qed

lemma join_rows_keys: "set (map fst (join_rows l r)) = set l \<union> set r"
proof -
  have "\<And>k. k \<in> set l \<union> set r \<Longrightarrow> \<exists>a b. (k, a, b) \<in> set (join_rows l r)"
  proof -
    fix k assume k: "k \<in> set l \<union> set r"
    obtain a where "a \<in> set (rows_of k l)" using rows_of_nonempty [of k l]
      by (cases "rows_of k l") auto
    moreover obtain b where "b \<in> set (rows_of k r)" using rows_of_nonempty [of k r]
      by (cases "rows_of k r") auto
    ultimately show "\<exists>a b. (k, a, b) \<in> set (join_rows l r)"
      using k by (auto simp add: join_rows_iff)
  qed
  moreover have "\<And>k a b. (k, a, b) \<in> set (join_rows l r) \<Longrightarrow> k \<in> set l \<union> set r"
    by (simp add: join_rows_iff)
  ultimately show ?thesis
    by (force simp add: image_iff)
qed

lemma join_outer_disjoint:
  assumes "set (column_names l) \<inter> set (column_names r) = {}"
  shows "join_outer l r =
     Inr \<lparr>index_name = (if index_name l = index_name r then index_name l else None),
          index = map fst (join_rows (index l) (index r)),
          columns =
            map (\<lambda>c. (fst c, map (\<lambda>row. take_cell (snd c) (fst (snd row)))
                                (join_rows (index l) (index r)))) (columns l) @
            map (\<lambda>c. (fst c, map (\<lambda>row. take_cell (snd c) (snd (snd row)))
                                (join_rows (index l) (index r)))) (columns r)\<rparr>"
  using assms by (auto simp add: join_outer_def list_ex_iff)

lemma join_outer_overlap:
  assumes "set (column_names l) \<inter> set (column_names r) \<noteq> {}"
  shows "join_outer l r = Inl ValueError"
  using assms by (auto simp add: join_outer_def list_ex_iff)

lemma join_outer_props:
  assumes j: "join_outer l r = Inr df"
  shows "set (index df) = set (index l) \<union> set (index r)"
    and "column_names df = column_names l @ column_names r"
    and "\<forall>c \<in> set (columns df). length (snd c) = length (index df)"
    and "length (index df) = length (join_rows (index l) (index r))"
    and "\<And>p. p < length (index df) \<Longrightarrow>
           index df ! p = fst (join_rows (index l) (index r) ! p)"
    and "\<And>p j. p < length (index df) \<Longrightarrow> j < length (columns l) \<Longrightarrow>
           snd (columns df ! j) ! p =
             take_cell (snd (columns l ! j)) (fst (snd (join_rows (index l) (index r) ! p)))"
    and "\<And>p j. p < length (index df) \<Longrightarrow> j < length (columns r) \<Longrightarrow>
           snd (columns df ! (length (columns l) + j)) ! p =
             take_cell (snd (columns r ! j)) (snd (snd (join_rows (index l) (index r) ! p)))"
proof -
  let ?J = "join_rows (index l) (index r)"
  from j have df: "df = \<lparr>index_name = (if index_name l = index_name r then index_name l else None),
          index = map fst ?J,
          columns =
            map (\<lambda>c. (fst c, map (\<lambda>row. take_cell (snd c) (fst (snd row))) ?J)) (columns l) @
            map (\<lambda>c. (fst c, map (\<lambda>row. take_cell (snd c) (snd (snd row))) ?J)) (columns r)\<rparr>"
    by (simp add: join_outer_def split: if_splits)
  show "set (index df) = set (index l) \<union> set (index r)"
    using join_rows_keys [of "index l" "index r"] by (simp add: df)
  show "column_names df = column_names l @ column_names r"
    by (simp add: df column_names_def comp_def)
  show "\<forall>c \<in> set (columns df). length (snd c) = length (index df)"
    by (auto simp add: df)
  show "length (index df) = length ?J" by (simp add: df)
  show "\<And>p. p < length (index df) \<Longrightarrow> index df ! p = fst (?J ! p)"
    by (simp add: df)
  show "\<And>p j. p < length (index df) \<Longrightarrow> j < length (columns l) \<Longrightarrow>
           snd (columns df ! j) ! p = take_cell (snd (columns l ! j)) (fst (snd (?J ! p)))"
    by (simp add: df nth_append)
  show "\<And>p j. p < length (index df) \<Longrightarrow> j < length (columns r) \<Longrightarrow>
           snd (columns df ! (length (columns l) + j)) ! p =
             take_cell (snd (columns r ! j)) (snd (snd (?J ! p)))"
    by (simp add: df nth_append)
qed

lemma join_rows_nth:
  assumes "p < length (join_rows l r)"
  shows "\<exists>a b. join_rows l r ! p = (fst (join_rows l r ! p), a, b) \<and>
     (case a of None \<Rightarrow> fst (join_rows l r ! p) \<notin> set l
      | Some i \<Rightarrow> i < length l \<and> l ! i = fst (join_rows l r ! p)) \<and>
     (case b of None \<Rightarrow> fst (join_rows l r ! p) \<notin> set r
      | Some i \<Rightarrow> i < length r \<and> r ! i = fst (join_rows l r ! p))"
proof -
  obtain k a b where row: "join_rows l r ! p = (k, a, b)"
    by (cases "join_rows l r ! p") auto
  with assms have "(k, a, b) \<in> set (join_rows l r)"
    by (metis nth_mem)
  then have a: "a \<in> set (rows_of k l)" and b: "b \<in> set (rows_of k r)"
    by (simp_all add: join_rows_iff)
  have A: "case a of None \<Rightarrow> k \<notin> set l | Some i \<Rightarrow> i < length l \<and> l ! i = k"
    by (cases a) (use a in \<open>simp_all add: rows_of_None rows_of_Some\<close>)
  have B: "case b of None \<Rightarrow> k \<notin> set r | Some i \<Rightarrow> i < length r \<and> r ! i = k"
    by (cases b) (use b in \<open>simp_all add: rows_of_None rows_of_Some\<close>)
  have k: "fst (join_rows l r ! p) = k"
    using row by simp
  show ?thesis
    unfolding k by (rule exI [of _ a], rule exI [of _ b]) (intro conjI row A B)
qed

lemma join_rows_left:
  assumes "i < length l"
  shows "\<exists>p < length (join_rows l r). \<exists>b. join_rows l r ! p = (l ! i, Some i, b)"
proof -
  obtain b where "b \<in> set (rows_of (l ! i) r)"
    using rows_of_nonempty [of "l ! i" r] by (cases "rows_of (l ! i) r") auto
  with assms have "(l ! i, Some i, b) \<in> set (join_rows l r)"
    by (simp add: join_rows_iff rows_of_Some)
  then show ?thesis
    by (auto simp add: in_set_conv_nth)
qed

lemma join_rows_right:
  assumes "i < length r"
  shows "\<exists>p < length (join_rows l r). \<exists>a. join_rows l r ! p = (r ! i, a, Some i)"
proof -
  obtain a where "a \<in> set (rows_of (r ! i) l)"
    using rows_of_nonempty [of "r ! i" l] by (cases "rows_of (r ! i) l") auto
  with assms have "(r ! i, a, Some i) \<in> set (join_rows l r)"
    by (simp add: join_rows_iff rows_of_Some)
  then show ?thesis
    by (auto simp add: in_set_conv_nth)
qed

lemma init_study_only:
  assumes "dir_exists d" "read_text d ''config'' = None" "json_load d ''config.json'' = None"
    "read_csv d ''study'' study_options = Some st" "read_csv d ''eval'' eval_options = None"
  shows "Session_init d = Inr ([WarnConfig, WarnJson, WarnEval],
     \<lparr>name = dir_name d, path = dir_path d, config = None, json = None,
      data = Some (st\<lparr>index_name := Some ''Step number''\<rparr>)\<rparr>)"
  using assms
  by (simp add: Session_init_def load_config_def load_json_def load_study_def load_eval_def)

lemma init_both:
  assumes "dir_exists d"
    "read_csv d ''study'' study_options = Some st" "read_csv d ''eval'' eval_options = Some ev"
    "join_outer (st\<lparr>index_name := Some ''Step number''\<rparr>)
       (ev\<lparr>index_name := Some ''Step number''\<rparr>) = Inr df"
  shows "Session_init d = Inr (fst (load_config d) @ fst (load_json d),
     \<lparr>name = dir_name d, path = dir_path d, config = snd (load_config d),
      json = snd (load_json d), data = Some df\<rparr>)"
  using assms
  by (simp add: Session_init_def load_study_def load_eval_def)

lemma init_both_overlap:
  assumes "dir_exists d"
    "read_csv d ''study'' study_options = Some st" "read_csv d ''eval'' eval_options = Some ev"
    "set (column_names st) \<inter> set (column_names ev) \<noteq> {}"
  shows "Session_init d = Inl ValueError"
proof -
  have "join_outer (st\<lparr>index_name := Some ''Step number''\<rparr>)
       (ev\<lparr>index_name := Some ''Step number''\<rparr>) = Inl ValueError"
    using assms(4) by (intro join_outer_overlap) (simp add: column_names_def)
  with assms(1-3) show ?thesis
    by (simp add: Session_init_def load_study_def load_eval_def)
qed


lemma merged_rows:
  assumes j: "join_outer l r = Inr df" and p: "p < length (index df)"
  shows "\<exists>a b.
     (case a of None \<Rightarrow> index df ! p \<notin> set (index l)
      | Some i \<Rightarrow> i < length (index l) \<and> index l ! i = index df ! p) \<and>
     (case b of None \<Rightarrow> index df ! p \<notin> set (index r)
      | Some i \<Rightarrow> i < length (index r) \<and> index r ! i = index df ! p) \<and>
     (\<forall>j < length (columns l). snd (columns df ! j) ! p = take_cell (snd (columns l ! j)) a) \<and>
     (\<forall>j < length (columns r).
        snd (columns df ! (length (columns l) + j)) ! p = take_cell (snd (columns r ! j)) b)"
proof -
  let ?J = "join_rows (index l) (index r)"
  from p have pJ: "p < length ?J"
    using join_outer_props(4) [OF j] by simp
  have k: "index df ! p = fst (?J ! p)"
    using p by (rule join_outer_props(5) [OF j])
  from join_rows_nth [OF pJ] obtain a b where row: "?J ! p = (fst (?J ! p), a, b)"
    and A: "case a of None \<Rightarrow> fst (?J ! p) \<notin> set (index l)
      | Some i \<Rightarrow> i < length (index l) \<and> index l ! i = fst (?J ! p)"
    and B: "case b of None \<Rightarrow> fst (?J ! p) \<notin> set (index r)
      | Some i \<Rightarrow> i < length (index r) \<and> index r ! i = fst (?J ! p)"
    by blast
  from row have a: "fst (snd (?J ! p)) = a" and b: "snd (snd (?J ! p)) = b"
    by (metis fst_conv snd_conv)+
  have L: "\<forall>j < length (columns l). snd (columns df ! j) ! p = take_cell (snd (columns l ! j)) a"
    using join_outer_props(6) [OF j p] a by simp
  have R: "\<forall>j < length (columns r).
        snd (columns df ! (length (columns l) + j)) ! p = take_cell (snd (columns r ! j)) b"
    using join_outer_props(7) [OF j p] b by simp
  show ?thesis
    unfolding k by (rule exI [of _ a], rule exI [of _ b]) (intro conjI A B L [unfolded k] R [unfolded k])
qed

lemma merged_left:
  assumes j: "join_outer l r = Inr df" and i: "i < length (index l)"
  shows "\<exists>p < length (index df). index df ! p = index l ! i \<and>
     (\<forall>j < length (columns l).
        snd (columns df ! j) ! p = take_cell (snd (columns l ! j)) (Some i))"
proof -
  let ?J = "join_rows (index l) (index r)"
  from join_rows_left [OF i] obtain p b where pJ: "p < length ?J"
    and row: "?J ! p = (index l ! i, Some i, b)"
    by blast
  from pJ have p: "p < length (index df)"
    using join_outer_props(4) [OF j] by simp
  have "index df ! p = index l ! i"
    using join_outer_props(5) [OF j p] row by simp
  moreover have "\<forall>j < length (columns l).
        snd (columns df ! j) ! p = take_cell (snd (columns l ! j)) (Some i)"
    using join_outer_props(6) [OF j p] row by simp
  ultimately show ?thesis
    using p by blast
qed

lemma merged_right:
  assumes j: "join_outer l r = Inr df" and i: "i < length (index r)"
  shows "\<exists>p < length (index df). index df ! p = index r ! i \<and>
     (\<forall>j < length (columns r).
        snd (columns df ! (length (columns l) + j)) ! p =
          take_cell (snd (columns r ! j)) (Some i))"
proof -
  let ?J = "join_rows (index l) (index r)"
  from join_rows_right [OF i] obtain p a where pJ: "p < length ?J"
    and row: "?J ! p = (index r ! i, a, Some i)"
    by blast
  from pJ have p: "p < length (index df)"
    using join_outer_props(4) [OF j] by simp
  have "index df ! p = index r ! i"
    using join_outer_props(5) [OF j p] row by simp
  moreover have "\<forall>j < length (columns r).
        snd (columns df ! (length (columns l) + j)) ! p =
          take_cell (snd (columns r ! j)) (Some i)"
    using join_outer_props(7) [OF j p] row by simp
  ultimately show ?thesis
    using p by blast
qed

lemma distinct_all_equal:
  "distinct xs \<Longrightarrow> (\<forall>x \<in> set xs. \<forall>y \<in> set xs. x = y) \<Longrightarrow> length xs \<le> 1"
proof (cases xs)
  case Nil
  then show ?thesis by simp
next
  case (Cons a ys)
  assume d: "distinct xs" and e: "\<forall>x \<in> set xs. \<forall>y \<in> set xs. x = y"
  have "ys = []"
  proof (cases ys)
    case Nil
    then show ?thesis .
  next
    case (Cons b zs)
    have "a \<in> set xs" and "b \<in> set xs"
      using Cons \<open>xs = a # ys\<close> by simp_all
    with e have "a = b" by blast
    moreover have "a \<noteq> b"
      using d Cons \<open>xs = a # ys\<close> by simp
    ultimately show ?thesis by simp
  qed
  with Cons show ?thesis by simp
qed

lemma positions_distinct: "distinct ks \<Longrightarrow> length (positions k ks) \<le> 1"
proof (rule distinct_all_equal)
  show "distinct (positions k ks)" by (simp add: positions_def)
next
  assume d: "distinct ks"
  show "\<forall>x \<in> set (positions k ks). \<forall>y \<in> set (positions k ks). x = y"
    using d by (auto simp add: positions_iff nth_eq_iff_index_eq)
qed

lemma rows_of_single: "distinct ks \<Longrightarrow> length (rows_of k ks) = 1"
  using positions_distinct [of ks k]
  by (cases "positions k ks") (auto simp add: rows_of_def)

lemma concat_keys_single:
  "(\<And>k. length (f k) = 1) \<Longrightarrow>
     map fst (concat (map (\<lambda>k. map (\<lambda>ab. (k, ab)) (f k)) ks)) = ks"
proof (induction ks)
  case Nil
  then show ?case by simp
next
  case (Cons k ks)
  from Cons.prems [of k] obtain x where "f k = [x]"
    by (cases "f k") auto
  with Cons show ?case by simp
qed

lemma join_rows_distinct:
  assumes l: "distinct l" and r: "distinct r"
  shows "distinct (map fst (join_rows l r))"
proof (cases "r = []")
  case True
  have "map fst (map (\<lambda>i. (l ! i, Some i, None :: nat option)) [0..<length l]) = l"
    by (simp add: comp_def map_nth)
  with True l show ?thesis by (simp add: join_rows_def)
next
  case False
  show ?thesis
  proof (cases "l = []")
    case True
    have "map fst (map (\<lambda>i. (r ! i, None :: nat option, Some i)) [0..<length r]) = r"
      by (simp add: comp_def map_nth)
    with True False r show ?thesis by (simp add: join_rows_def)
  next
    case nl: False
    have one: "\<And>k. length (List.product (rows_of k l) (rows_of k r)) = 1"
      using l r by (simp add: rows_of_single)
    have "map fst (join_rows l r) = join_keys l r"
      using False nl concat_keys_single [of "\<lambda>k. List.product (rows_of k l) (rows_of k r)", OF one]
      by (simp add: join_rows_def)
    moreover have "distinct (join_keys l r)"
      using l by (auto simp add: join_keys_def)
    ultimately show ?thesis by simp
  qed
qed

lemma take_cell_Some: "i < length cs \<Longrightarrow> take_cell cs (Some i) = cs ! i"
  by (simp add: take_cell_def)

lemma take_cell_None: "take_cell cs None = NaN"
  by (simp add: take_cell_def)

lemma join_outer_distinct:
  assumes "join_outer l r = Inr df" "distinct (index l)" "distinct (index r)"
  shows "distinct (index df)"
proof -
  from assms(1) have "index df = map fst (join_rows (index l) (index r))"
    by (auto simp add: join_outer_def split: if_splits)
  with assms(2,3) show ?thesis
    by (simp add: join_rows_distinct)
qed

text \<open>
  Claim C9, as the specification words it, fails: it has the two logs merged whenever both
  are present, and the constructor joins them without a suffix for the columns they
  share.  With a column \<^verbatim>\<open>Loss\<close> in both logs the join raises \<^verbatim>\<open>ValueError\<close>, outside
  every \<^verbatim>\<open>try\<close> of the constructor, and no session is made.
\<close>

theorem session_shared_column_counterexample:
  "Session_init \<lparr>dir_exists = True, is_dir = True, dir_name = ''run'', dir_path = ''results/run'',
      read_text = (\<lambda>f. None), json_load = (\<lambda>f. None),
      read_csv = (\<lambda>f opts. if f = ''study'' \<and> opts = study_options
         then Some \<lparr>index_name = Some ''Step'', index = [0, 10, 20],
                     columns = [(''Loss'', [Num 3, Num 2, Num 1])]\<rparr>
         else if f = ''eval'' \<and> opts = eval_options
         then Some \<lparr>index_name = Some ''Step'', index = [10, 30],
                     columns = [(''Loss'', [Num 4, Num 5])]\<rparr>
         else None)\<rparr> = Inl ValueError"
  by (simp add: Session_init_def load_study_def load_eval_def study_options_def
      eval_options_def join_outer_def column_names_def)

text \<open>
  Claim C9, amended.  The table of a session.  A directory whose \<^verbatim>\<open>study\<close> file can be
  read, and whose \<^verbatim>\<open>eval\<close> file and configuration files cannot, gives a session without
  raising: its JSON configuration is absent and its table is the study table with the
  index named \<^verbatim>\<open>Step number\<close>.  When both logs are read and share no column name, the
  table is their outer join on the step index: its keys are the keys of either log, each
  once when neither log repeats a key; its columns are those of the study log followed by
  those of the evaluation log; every row takes, for the columns of each log, the cells of
  a row of that log with the same key, and missing values where that log has no such row;
  and every row of either log is found in it.  When the logs share a column name, the
  constructor raises \<^verbatim>\<open>ValueError\<close>.  When neither log can be read, the table is absent.
\<close>

theorem session_tables_merged:
  "(dir_exists d \<and> read_text d ''config'' = None \<and> json_load d ''config.json'' = None \<and>
    read_csv d ''study'' study_options = Some st \<and> read_csv d ''eval'' eval_options = None \<longrightarrow>
      Session_init d = Inr ([WarnConfig, WarnJson, WarnEval],
        \<lparr>name = dir_name d, path = dir_path d, config = None, json = None,
         data = Some (st\<lparr>index_name := Some ''Step number''\<rparr>)\<rparr>)) \<and>
   (dir_exists d \<and> read_csv d ''study'' study_options = Some st \<and>
    read_csv d ''eval'' eval_options = Some ev \<and>
    set (column_names st) \<inter> set (column_names ev) = {} \<and>
    (\<forall>c \<in> set (columns st). length (snd c) = length (index st)) \<and>
    (\<forall>c \<in> set (columns ev). length (snd c) = length (index ev)) \<longrightarrow>
      (\<exists>ws s df. Session_init d = Inr (ws, s) \<and> data s = Some df \<and>
         join_outer (st\<lparr>index_name := Some ''Step number''\<rparr>)
           (ev\<lparr>index_name := Some ''Step number''\<rparr>) = Inr df \<and>
         index_name df = Some ''Step number'' \<and>
         set (index df) = set (index st) \<union> set (index ev) \<and>
         (distinct (index st) \<and> distinct (index ev) \<longrightarrow> distinct (index df)) \<and>
         column_names df = column_names st @ column_names ev \<and>
         (\<forall>c \<in> set (columns df). length (snd c) = length (index df)) \<and>
         (\<forall>p < length (index df). \<exists>a b.
            (case a of None \<Rightarrow> index df ! p \<notin> set (index st)
             | Some i \<Rightarrow> i < length (index st) \<and> index st ! i = index df ! p) \<and>
            (case b of None \<Rightarrow> index df ! p \<notin> set (index ev)
             | Some i \<Rightarrow> i < length (index ev) \<and> index ev ! i = index df ! p) \<and>
            (\<forall>j < length (columns st).
               snd (columns df ! j) ! p =
                 (case a of None \<Rightarrow> NaN | Some i \<Rightarrow> snd (columns st ! j) ! i)) \<and>
            (\<forall>j < length (columns ev).
               snd (columns df ! (length (columns st) + j)) ! p =
                 (case b of None \<Rightarrow> NaN | Some i \<Rightarrow> snd (columns ev ! j) ! i))) \<and>
         (\<forall>i < length (index st). \<exists>p < length (index df). index df ! p = index st ! i \<and>
            (\<forall>j < length (columns st). snd (columns df ! j) ! p = snd (columns st ! j) ! i)) \<and>
         (\<forall>i < length (index ev). \<exists>p < length (index df). index df ! p = index ev ! i \<and>
            (\<forall>j < length (columns ev).
               snd (columns df ! (length (columns st) + j)) ! p = snd (columns ev ! j) ! i)))) \<and>
   (dir_exists d \<and> read_csv d ''study'' study_options = Some st \<and>
    read_csv d ''eval'' eval_options = Some ev \<and>
    set (column_names st) \<inter> set (column_names ev) \<noteq> {} \<longrightarrow>
      Session_init d = Inl ValueError) \<and>
   (dir_exists d \<and> read_csv d ''study'' study_options = None \<and>
    read_csv d ''eval'' eval_options = None \<longrightarrow>
      (\<exists>ws s. Session_init d = Inr (ws, s) \<and> data s = None))"
proof (intro conjI impI)
  assume "dir_exists d \<and> read_text d ''config'' = None \<and> json_load d ''config.json'' = None \<and>
    read_csv d ''study'' study_options = Some st \<and> read_csv d ''eval'' eval_options = None"
  then show "Session_init d = Inr ([WarnConfig, WarnJson, WarnEval],
        \<lparr>name = dir_name d, path = dir_path d, config = None, json = None,
         data = Some (st\<lparr>index_name := Some ''Step number''\<rparr>)\<rparr>)"
    by (simp add: init_study_only)
next
  assume a: "dir_exists d \<and> read_csv d ''study'' study_options = Some st \<and>
    read_csv d ''eval'' eval_options = Some ev \<and>
    set (column_names st) \<inter> set (column_names ev) = {} \<and>
    (\<forall>c \<in> set (columns st). length (snd c) = length (index st)) \<and>
    (\<forall>c \<in> set (columns ev). length (snd c) = length (index ev))"
  let ?l = "st\<lparr>index_name := Some ''Step number''\<rparr>"
  let ?r = "ev\<lparr>index_name := Some ''Step number''\<rparr>"
  from a have ex: "dir_exists d" and rs: "read_csv d ''study'' study_options = Some st"
    and re: "read_csv d ''eval'' eval_options = Some ev"
    and dj: "set (column_names st) \<inter> set (column_names ev) = {}"
    and wl: "\<forall>c \<in> set (columns st). length (snd c) = length (index st)"
    and wr: "\<forall>c \<in> set (columns ev). length (snd c) = length (index ev)"
    by blast+
  have il: "index ?l = index st" and cl: "columns ?l = columns st"
    and ir: "index ?r = index ev" and cr: "columns ?r = columns ev"
    and nl: "column_names ?l = column_names st" and nr: "column_names ?r = column_names ev"
    by (simp_all add: column_names_def)
  from dj have "set (column_names ?l) \<inter> set (column_names ?r) = {}"
    by (simp add: nl nr)
  from join_outer_disjoint [OF this] obtain df where j: "join_outer ?l ?r = Inr df"
    and nm: "index_name df = Some ''Step number''"
    by simp
  let ?s = "\<lparr>name = dir_name d, path = dir_path d, config = snd (load_config d),
      json = snd (load_json d), data = Some df\<rparr>"
  have 1: "Session_init d = Inr (fst (load_config d) @ fst (load_json d), ?s)"
    by (rule init_both [OF ex rs re j])
  have 2: "data ?s = Some df" by simp
  have 4: "set (index df) = set (index st) \<union> set (index ev)"
    using join_outer_props(1) [OF j] by (simp only: il ir)
  have 3: "distinct (index st) \<and> distinct (index ev) \<longrightarrow> distinct (index df)"
    using join_outer_distinct [OF j] by (simp only: il ir) blast
  have 5: "column_names df = column_names st @ column_names ev"
    using join_outer_props(2) [OF j] by (simp only: nl nr)
  have 6: "\<forall>c \<in> set (columns df). length (snd c) = length (index df)"
    by (rule join_outer_props(3) [OF j])
  have lenl: "\<And>j i. j < length (columns st) \<Longrightarrow> i < length (index st) \<Longrightarrow>
      take_cell (snd (columns st ! j)) (Some i) = snd (columns st ! j) ! i"
    using wl by (simp add: take_cell_Some)
  have lenr: "\<And>j i. j < length (columns ev) \<Longrightarrow> i < length (index ev) \<Longrightarrow>
      take_cell (snd (columns ev ! j)) (Some i) = snd (columns ev ! j) ! i"
    using wr by (simp add: take_cell_Some)
  have 7: "\<forall>p < length (index df). \<exists>a b.
            (case a of None \<Rightarrow> index df ! p \<notin> set (index st)
             | Some i \<Rightarrow> i < length (index st) \<and> index st ! i = index df ! p) \<and>
            (case b of None \<Rightarrow> index df ! p \<notin> set (index ev)
             | Some i \<Rightarrow> i < length (index ev) \<and> index ev ! i = index df ! p) \<and>
            (\<forall>j < length (columns st).
               snd (columns df ! j) ! p =
                 (case a of None \<Rightarrow> NaN | Some i \<Rightarrow> snd (columns st ! j) ! i)) \<and>
            (\<forall>j < length (columns ev).
               snd (columns df ! (length (columns st) + j)) ! p =
                 (case b of None \<Rightarrow> NaN | Some i \<Rightarrow> snd (columns ev ! j) ! i))"
  proof (intro allI impI)
    fix p assume "p < length (index df)"
    from merged_rows [OF j this, unfolded il ir cl cr] obtain a b where
      A: "case a of None \<Rightarrow> index df ! p \<notin> set (index st)
             | Some i \<Rightarrow> i < length (index st) \<and> index st ! i = index df ! p"
      and B: "case b of None \<Rightarrow> index df ! p \<notin> set (index ev)
             | Some i \<Rightarrow> i < length (index ev) \<and> index ev ! i = index df ! p"
      and L: "\<forall>j < length (columns st).
               snd (columns df ! j) ! p = take_cell (snd (columns st ! j)) a"
      and R: "\<forall>j < length (columns ev).
               snd (columns df ! (length (columns st) + j)) ! p = take_cell (snd (columns ev ! j)) b"
      by blast
    have L': "\<forall>j < length (columns st).
               snd (columns df ! j) ! p =
                 (case a of None \<Rightarrow> NaN | Some i \<Rightarrow> snd (columns st ! j) ! i)"
    proof (cases a)
      case None
      with L show ?thesis by (simp add: take_cell_None)
    next
      case (Some i)
      with A have "i < length (index st)" by simp
      with L Some show ?thesis by (simp add: lenl)
    qed
    have R': "\<forall>j < length (columns ev).
               snd (columns df ! (length (columns st) + j)) ! p =
                 (case b of None \<Rightarrow> NaN | Some i \<Rightarrow> snd (columns ev ! j) ! i)"
    proof (cases b)
      case None
      with R show ?thesis by (simp add: take_cell_None)
    next
      case (Some i)
      with B have "i < length (index ev)" by simp
      with R Some show ?thesis by (simp add: lenr)
    qed
    show "\<exists>a b.
            (case a of None \<Rightarrow> index df ! p \<notin> set (index st)
             | Some i \<Rightarrow> i < length (index st) \<and> index st ! i = index df ! p) \<and>
            (case b of None \<Rightarrow> index df ! p \<notin> set (index ev)
             | Some i \<Rightarrow> i < length (index ev) \<and> index ev ! i = index df ! p) \<and>
            (\<forall>j < length (columns st).
               snd (columns df ! j) ! p =
                 (case a of None \<Rightarrow> NaN | Some i \<Rightarrow> snd (columns st ! j) ! i)) \<and>
            (\<forall>j < length (columns ev).
               snd (columns df ! (length (columns st) + j)) ! p =
                 (case b of None \<Rightarrow> NaN | Some i \<Rightarrow> snd (columns ev ! j) ! i))"
      by (rule exI [of _ a], rule exI [of _ b]) (intro conjI A B L' R')
  qed
  have 8: "\<forall>i < length (index st). \<exists>p < length (index df). index df ! p = index st ! i \<and>
            (\<forall>j < length (columns st). snd (columns df ! j) ! p = snd (columns st ! j) ! i)"
  proof (intro allI impI)
    fix i assume i: "i < length (index st)"
    then have "i < length (index ?l)" by simp
    from merged_left [OF j this, unfolded il cl] obtain p where "p < length (index df)"
      "index df ! p = index st ! i"
      "\<forall>j < length (columns st).
         snd (columns df ! j) ! p = take_cell (snd (columns st ! j)) (Some i)"
      by blast
    with i show "\<exists>p < length (index df). index df ! p = index st ! i \<and>
            (\<forall>j < length (columns st). snd (columns df ! j) ! p = snd (columns st ! j) ! i)"
      by (auto simp add: lenl)
  qed
  have 9: "\<forall>i < length (index ev). \<exists>p < length (index df). index df ! p = index ev ! i \<and>
            (\<forall>j < length (columns ev).
               snd (columns df ! (length (columns st) + j)) ! p = snd (columns ev ! j) ! i)"
  proof (intro allI impI)
    fix i assume i: "i < length (index ev)"
    then have "i < length (index ?r)" by simp
    from merged_right [OF j this, unfolded ir cr cl] obtain p where "p < length (index df)"
      "index df ! p = index ev ! i"
      "\<forall>j < length (columns ev).
         snd (columns df ! (length (columns st) + j)) ! p =
           take_cell (snd (columns ev ! j)) (Some i)"
      by blast
    with i show "\<exists>p < length (index df). index df ! p = index ev ! i \<and>
            (\<forall>j < length (columns ev).
               snd (columns df ! (length (columns st) + j)) ! p = snd (columns ev ! j) ! i)"
      by (auto simp add: lenr)
  qed
  show "(\<exists>ws s df. Session_init d = Inr (ws, s) \<and> data s = Some df \<and>
         join_outer (st\<lparr>index_name := Some ''Step number''\<rparr>)
           (ev\<lparr>index_name := Some ''Step number''\<rparr>) = Inr df \<and>
         index_name df = Some ''Step number'' \<and>
         set (index df) = set (index st) \<union> set (index ev) \<and>
         (distinct (index st) \<and> distinct (index ev) \<longrightarrow> distinct (index df)) \<and>
         column_names df = column_names st @ column_names ev \<and>
         (\<forall>c \<in> set (columns df). length (snd c) = length (index df)) \<and>
         (\<forall>p < length (index df). \<exists>a b.
            (case a of None \<Rightarrow> index df ! p \<notin> set (index st)
             | Some i \<Rightarrow> i < length (index st) \<and> index st ! i = index df ! p) \<and>
            (case b of None \<Rightarrow> index df ! p \<notin> set (index ev)
             | Some i \<Rightarrow> i < length (index ev) \<and> index ev ! i = index df ! p) \<and>
            (\<forall>j < length (columns st).
               snd (columns df ! j) ! p =
                 (case a of None \<Rightarrow> NaN | Some i \<Rightarrow> snd (columns st ! j) ! i)) \<and>
            (\<forall>j < length (columns ev).
               snd (columns df ! (length (columns st) + j)) ! p =
                 (case b of None \<Rightarrow> NaN | Some i \<Rightarrow> snd (columns ev ! j) ! i))) \<and>
         (\<forall>i < length (index st). \<exists>p < length (index df). index df ! p = index st ! i \<and>
            (\<forall>j < length (columns st). snd (columns df ! j) ! p = snd (columns st ! j) ! i)) \<and>
         (\<forall>i < length (index ev). \<exists>p < length (index df). index df ! p = index ev ! i \<and>
            (\<forall>j < length (columns ev).
               snd (columns df ! (length (columns st) + j)) ! p = snd (columns ev ! j) ! i)))"
    by (rule exI [of _ "fst (load_config d) @ fst (load_json d)"], rule exI [of _ ?s],
        rule exI [of _ df]) (intro conjI 1 2 j nm 4 3 5 6 7 8 9)
next
  assume "dir_exists d \<and> read_csv d ''study'' study_options = Some st \<and>
    read_csv d ''eval'' eval_options = Some ev \<and>
    set (column_names st) \<inter> set (column_names ev) \<noteq> {}"
  then show "Session_init d = Inl ValueError"
    by (intro init_both_overlap [where st = st and ev = ev]) simp_all
next
  assume "dir_exists d \<and> read_csv d ''study'' study_options = None \<and>
    read_csv d ''eval'' eval_options = None"
  then show "\<exists>ws s. Session_init d = Inr (ws, s) \<and> data s = None"
    by (intro init_no_tables) simp_all
qed

theorem session_tables_merged_witness:
  "Session_init \<lparr>dir_exists = True, is_dir = True, dir_name = ''run'', dir_path = ''results/run'',
      read_text = (\<lambda>f. None), json_load = (\<lambda>f. None),
      read_csv = (\<lambda>f opts. if f = ''study'' \<and> opts = study_options
         then Some \<lparr>index_name = Some ''Step'', index = [0, 10, 20],
                     columns = [(''Loss'', [Num 3, Num 2, Num 1])]\<rparr>
         else None)\<rparr>
     = Inr ([WarnConfig, WarnJson, WarnEval],
         \<lparr>name = ''run'', path = ''results/run'', config = None, json = None,
          data = Some \<lparr>index_name = Some ''Step number'', index = [0, 10, 20],
                       columns = [(''Loss'', [Num 3, Num 2, Num 1])]\<rparr>\<rparr>) \<and>
   (\<exists>ws s. Session_init \<lparr>dir_exists = True, is_dir = True, dir_name = ''run'',
      dir_path = ''results/run'', read_text = (\<lambda>f. None), json_load = (\<lambda>f. None),
      read_csv = (\<lambda>f opts. if f = ''study'' \<and> opts = study_options
         then Some \<lparr>index_name = Some ''Step'', index = [0, 10, 20],
                     columns = [(''Loss'', [Num 3, Num 2, Num 1])]\<rparr>
         else if f = ''eval'' \<and> opts = eval_options
         then Some \<lparr>index_name = Some ''Step'', index = [10, 30],
                     columns = [(''Accuracy'', [Num 0.5, Num 0.9])]\<rparr>
         else None)\<rparr> = Inr (ws, s) \<and>
      data s = Some \<lparr>index_name = Some ''Step number'', index = [0, 10, 20, 30],
                      columns = [(''Loss'', [Num 3, Num 2, Num 1, NaN]),
                                 (''Accuracy'', [NaN, Num 0.5, NaN, Num 0.9])]\<rparr>) \<and>
   Session_init \<lparr>dir_exists = True, is_dir = True, dir_name = ''run'', dir_path = ''results/run'',
      read_text = (\<lambda>f. None), json_load = (\<lambda>f. None),
      read_csv = (\<lambda>f opts. if f = ''study'' \<and> opts = study_options
         then Some \<lparr>index_name = Some ''Step'', index = [0, 10, 20],
                     columns = [(''Loss'', [Num 3, Num 2, Num 1])]\<rparr>
         else if f = ''eval'' \<and> opts = eval_options
         then Some \<lparr>index_name = Some ''Step'', index = [10, 30],
                     columns = [(''Accuracy'', [Num 0.5, Num 0.9]), (''Loss'', [Num 4, Num 5])]\<rparr>
         else None)\<rparr> = Inl ValueError \<and>
   (\<exists>ws s. Session_init \<lparr>dir_exists = True, is_dir = True, dir_name = ''run'',
      dir_path = ''results/run'', read_text = (\<lambda>f. None), json_load = (\<lambda>f. None),
      read_csv = (\<lambda>f opts. None)\<rparr> = Inr (ws, s) \<and> data s = None)"
proof -
  define st where "st = \<lparr>index_name = Some ''Step'', index = [0, 10, 20 :: int],
                     columns = [(''Loss'', [Num 3, Num 2, Num 1])]\<rparr>"
  define ev where "ev = \<lparr>index_name = Some ''Step'', index = [10, 30 :: int],
                     columns = [(''Accuracy'', [Num 0.5, Num 0.9])]\<rparr>"
  define ev2 where "ev2 = \<lparr>index_name = Some ''Step'', index = [10, 30 :: int],
                     columns = [(''Accuracy'', [Num 0.5, Num 0.9]), (''Loss'', [Num 4, Num 5])]\<rparr>"
  define d1 where "d1 = \<lparr>dir_exists = True, is_dir = True, dir_name = ''run'',
      dir_path = ''results/run'', read_text = (\<lambda>f. None), json_load = (\<lambda>f. None),
      read_csv = (\<lambda>f opts. if f = ''study'' \<and> opts = study_options then Some st else None)\<rparr>"
  define d2 where "d2 = \<lparr>dir_exists = True, is_dir = True, dir_name = ''run'',
      dir_path = ''results/run'', read_text = (\<lambda>f. None), json_load = (\<lambda>f. None),
      read_csv = (\<lambda>f opts. if f = ''study'' \<and> opts = study_options then Some st
         else if f = ''eval'' \<and> opts = eval_options then Some ev else None)\<rparr>"
  define d3 where "d3 = \<lparr>dir_exists = True, is_dir = True, dir_name = ''run'',
      dir_path = ''results/run'', read_text = (\<lambda>f. None), json_load = (\<lambda>f. None),
      read_csv = (\<lambda>f opts. if f = ''study'' \<and> opts = study_options then Some st
         else if f = ''eval'' \<and> opts = eval_options then Some ev2 else None)\<rparr>"
  define d4 where "d4 = \<lparr>dir_exists = True, is_dir = True, dir_name = ''run'',
      dir_path = ''results/run'', read_text = (\<lambda>f. None), json_load = (\<lambda>f. None),
      read_csv = (\<lambda>f opts. None :: frame option)\<rparr>"
  have h1: "dir_exists d1 \<and> read_text d1 ''config'' = None \<and> json_load d1 ''config.json'' = None \<and>
    read_csv d1 ''study'' study_options = Some st \<and> read_csv d1 ''eval'' eval_options = None"
    by (simp add: d1_def)
  have 1: "Session_init d1 = Inr ([WarnConfig, WarnJson, WarnEval],
         \<lparr>name = ''run'', path = ''results/run'', config = None, json = None,
          data = Some (st\<lparr>index_name := Some ''Step number''\<rparr>)\<rparr>)"
    using session_tables_merged [where d = d1 and st = st, THEN conjunct1, THEN mp, OF h1]
    by (simp add: d1_def)
  have h2: "dir_exists d2 \<and> read_csv d2 ''study'' study_options = Some st \<and>
    read_csv d2 ''eval'' eval_options = Some ev \<and>
    set (column_names st) \<inter> set (column_names ev) = {} \<and>
    (\<forall>c \<in> set (columns st). length (snd c) = length (index st)) \<and>
    (\<forall>c \<in> set (columns ev). length (snd c) = length (index ev))"
    by (simp add: d2_def) (simp add: st_def ev_def column_names_def)
  have rows: "join_rows [0, 10, 20] [10, 30] =
     [(0, Some 0, None), (10, Some 1, Some 0), (20, Some 2, None), (30, None, Some 1)]"
    by (simp add: join_rows_def join_keys_def rows_of_def positions_def upt_rec [of _ "Suc _"]
        upt_rec [of _ "numeral _"] numeral_2_eq_2 numeral_3_eq_3)
  have j: "join_outer (st\<lparr>index_name := Some ''Step number''\<rparr>)
       (ev\<lparr>index_name := Some ''Step number''\<rparr>) =
     Inr \<lparr>index_name = Some ''Step number'', index = [0, 10, 20, 30],
          columns = [(''Loss'', [Num 3, Num 2, Num 1, NaN]),
                     (''Accuracy'', [NaN, Num 0.5, NaN, Num 0.9])]\<rparr>"
    by (simp add: st_def ev_def join_outer_def rows column_names_def take_cell_def)
  from session_tables_merged [where d = d2 and st = st and ev = ev, THEN conjunct2,
      THEN conjunct1, THEN mp, OF h2]
  obtain ws s df where "Session_init d2 = Inr (ws, s)" "data s = Some df"
    "join_outer (st\<lparr>index_name := Some ''Step number''\<rparr>)
       (ev\<lparr>index_name := Some ''Step number''\<rparr>) = Inr df"
    by blast
  with j have 2: "\<exists>ws s. Session_init d2 = Inr (ws, s) \<and>
      data s = Some \<lparr>index_name = Some ''Step number'', index = [0, 10, 20, 30],
                      columns = [(''Loss'', [Num 3, Num 2, Num 1, NaN]),
                                 (''Accuracy'', [NaN, Num 0.5, NaN, Num 0.9])]\<rparr>"
    by auto
  have h3: "dir_exists d3 \<and> read_csv d3 ''study'' study_options = Some st \<and>
    read_csv d3 ''eval'' eval_options = Some ev2 \<and>
    set (column_names st) \<inter> set (column_names ev2) \<noteq> {}"
    by (simp add: d3_def) (simp add: st_def ev2_def column_names_def)
  have 3: "Session_init d3 = Inl ValueError"
    by (rule session_tables_merged [where d = d3 and st = st and ev = ev2, THEN conjunct2,
      THEN conjunct2, THEN conjunct1, THEN mp, OF h3])
  have h4: "dir_exists d4 \<and> read_csv d4 ''study'' study_options = None \<and>
    read_csv d4 ''eval'' eval_options = None"
    by (simp add: d4_def)
  have 4: "\<exists>ws s. Session_init d4 = Inr (ws, s) \<and> data s = None"
    by (rule session_tables_merged [where d = d4, THEN conjunct2,
      THEN conjunct2, THEN conjunct2, THEN mp, OF h4])
  have st': "st\<lparr>index_name := Some ''Step number''\<rparr> =
     \<lparr>index_name = Some ''Step number'', index = [0, 10, 20],
      columns = [(''Loss'', [Num 3, Num 2, Num 1])]\<rparr>"
    by (simp add: st_def)
  from 1 2 3 4 show ?thesis
    unfolding st' unfolding d1_def d2_def d3_def d4_def st_def ev_def ev2_def
    by (intro conjI)
qed

end
